theory Spec2Isabelle
  imports Complex_Main "HOL-Library.Multiset" "HOL-Library.List_Lexorder" "HOL-Library.Char_ord"
    "HOL-Library.Option_ord"
begin

section \<open>Python values, exceptions and the log\<close>

text \<open>
  The module \<^verbatim>\<open>backend/app/database.py\<close> is one class, \<^verbatim>\<open>BigQueryService\<close>, whose methods
  build SQL text, send it to the query engine and reshape the rows that come back. The
  cells of a result row and the entries of the dictionaries the methods return are
  dynamically typed, so they are values of one datatype. A Python \<^verbatim>\<open>float\<close> is modelled as a
  real number: the arithmetic is exact, and there is no NaN. A missing cell (SQL NULL) is
  \<open>VNone\<close>.
\<close>

datatype val = VNone | VBool bool | VInt int | VFloat real | VStr string

text \<open>A dictionary with string keys, and a result row, is a finite map; a result set
  (a row iterator or a data frame) is the list of its rows.\<close>

type_synonym row = "string \<rightharpoonup> val"
type_synonym frame = "row list"

text \<open>
  Exceptions. \<open>Engine e\<close> is an exception raised by the query engine (the client library);
  what it carries is left open. The others are raised by the module's own Python code.
\<close>

datatype 'e exn =
    Engine 'e
  | StopIteration
  | RuntimeError
  | IndexError
  | KeyError string
  | AttributeError string
  | TypeError
  | ValueError
  | ZeroDivisionError

text \<open>A log record is a level and an f-string: literal text and the values that fill its
  holes, left unformatted.\<close>

datatype level = INFO | WARNING | ERROR

datatype 'e part = T string | N int | X real | V val | E "'e exn"

type_synonym 'e log_entry = "level \<times> 'e part list"

section \<open>The queries the module sends\<close>

text \<open>
  Every SQL text of the module is a fixed template with holes filled from the arguments.
  A query is represented by its template (one constructor for each) and the values
  interpolated into it, in the order they occur; table names come first. The conditions of
  the paginated listing's WHERE clause are the four strings the code can put into
  \<^verbatim>\<open>where_conditions\<close>, joined with AND.
\<close>

datatype cond =
    HasCompleteData        \<comment> \<open>\<^verbatim>\<open>has_complete_data = TRUE\<close>\<close>
  | StatusEq string        \<comment> \<open>\<^verbatim>\<open>status = '{status_filter}'\<close>\<close>
  | PropertyEq string      \<comment> \<open>\<^verbatim>\<open>property = '{property_filter}'\<close>\<close>
  | NeedsPricing           \<comment> \<open>\<^verbatim>\<open>needs_pricing = TRUE\<close>\<close>

datatype query =
    TestQuery                                \<comment> \<open>\<^verbatim>\<open>SELECT 1 as test\<close>\<close>
  | CountQuery string "cond list"            \<comment> \<open>get_units: \<^verbatim>\<open>count_query\<close>\<close>
  | DataQuery string "cond list" int int     \<comment> \<open>get_units: \<^verbatim>\<open>data_query\<close>, LIMIT and OFFSET\<close>
  | UnitByIdQuery string string              \<comment> \<open>get_unit_by_id\<close>
  | ComparablesQuery string string           \<comment> \<open>get_unit_comparables\<close>
  | VacantUnitsQuery string "int option"     \<comment> \<open>get_vacant_units, with its limit clause\<close>
  | PropertiesQuery string                   \<comment> \<open>get_properties\<close>
  | UnitTypesQuery string                    \<comment> \<open>get_unit_types_summary\<close>
  | PortfolioQuery string                    \<comment> \<open>get_portfolio_analytics: \<^verbatim>\<open>query\<close>\<close>
  | UrgencyQuery string                      \<comment> \<open>get_portfolio_analytics: \<^verbatim>\<open>urgency_query\<close>\<close>
  | PropertyQuery string                     \<comment> \<open>get_portfolio_analytics: \<^verbatim>\<open>property_query\<close>\<close>
  | MarketSummaryQuery string string         \<comment> \<open>get_market_position_analytics: \<^verbatim>\<open>query\<close>\<close>
  | UnitTypeQuery string string              \<comment> \<open>get_market_position_analytics: \<^verbatim>\<open>unit_type_query\<close>\<close>
  | PricingSummaryQuery string string        \<comment> \<open>get_pricing_opportunities: \<^verbatim>\<open>query\<close>\<close>
  | TopQuery string string                   \<comment> \<open>get_pricing_opportunities: \<^verbatim>\<open>top_query\<close>\<close>
  | OverviewQuery string string              \<comment> \<open>\<^verbatim>\<open>overview_query\<close>: table, property name\<close>
  | MarketQuery string string real real      \<comment> \<open>\<^verbatim>\<open>market_query\<close>: table, bedroom label, the band's ends\<close>
  | RentComparisonQuery string string        \<comment> \<open>\<^verbatim>\<open>rent_comparison_query\<close>: table, property name\<close>
  | CompQuery string string                  \<comment> \<open>\<^verbatim>\<open>comp_query\<close>: table, bedroom label\<close>
  | PerformanceQuery string string           \<comment> \<open>\<^verbatim>\<open>performance_query\<close>: table, property name\<close>
  | UnitsQuery string string string          \<comment> \<open>\<^verbatim>\<open>units_query\<close>: both tables, property name\<close>
  | PositioningQuery string string string    \<comment> \<open>\<^verbatim>\<open>positioning_query\<close>: both tables, property name\<close>
  | CompetitorsQuery string string string    \<comment> \<open>\<^verbatim>\<open>competitors_query\<close>: both tables, property name\<close>
  | DistributionQuery string string          \<comment> \<open>\<^verbatim>\<open>distribution_query\<close>: table, property name\<close>
  | TestFilterQuery string string            \<comment> \<open>test_property_filter: \<^verbatim>\<open>test_query\<close>\<close>
  | AllPropertiesQuery string                \<comment> \<open>test_property_filter: \<^verbatim>\<open>all_properties_query\<close>\<close>
  | SchemaQuery string                       \<comment> \<open>test_competition_data: \<^verbatim>\<open>schema_query\<close>\<close>
  | SampleQuery string                       \<comment> \<open>test_competition_data: \<^verbatim>\<open>sample_query\<close>\<close>

text \<open>
  The query engine is outside the module. It is a state machine of an unknown state
  \<open>'w\<close>: a call takes a query and answers with rows or raises, and may answer the same
  query differently the next time.
\<close>

type_synonym ('e, 'w) client = "query \<Rightarrow> 'w \<Rightarrow> ('e + frame) \<times> 'w"

section \<open>Effects: the engine's state, the log, exceptions\<close>

text \<open>
  A method runs from a state (the engine's state and the log written so far) to a result,
  a value or a raised exception, and the state after it. \<open>try_except\<close> is Python's
  \<^verbatim>\<open>try: ... except Exception as e: ...\<close>: the handler starts from the state the failed
  block left.
\<close>

type_synonym ('a, 'e, 'w) prog =
  "'w \<times> 'e log_entry list \<Rightarrow> ('e exn + 'a) \<times> ('w \<times> 'e log_entry list)"

definition return_p :: "'a \<Rightarrow> ('a, 'e, 'w) prog" where
  "return_p x = (\<lambda>s. (Inr x, s))"

definition raise_p :: "'e exn \<Rightarrow> ('a, 'e, 'w) prog" where
  "raise_p e = (\<lambda>s. (Inl e, s))"

definition bind_p :: "('a, 'e, 'w) prog \<Rightarrow> ('a \<Rightarrow> ('b, 'e, 'w) prog) \<Rightarrow> ('b, 'e, 'w) prog" where
  "bind_p m f = (\<lambda>s. case m s of (Inl e, s') \<Rightarrow> (Inl e, s') | (Inr x, s') \<Rightarrow> f x s')"

definition try_except :: "('a, 'e, 'w) prog \<Rightarrow> ('e exn \<Rightarrow> ('a, 'e, 'w) prog) \<Rightarrow> ('a, 'e, 'w) prog" where
  "try_except m h = (\<lambda>s. case m s of (Inl e, s') \<Rightarrow> h e s' | (Inr x, s') \<Rightarrow> (Inr x, s'))"

definition logger :: "level \<Rightarrow> 'e part list \<Rightarrow> (unit, 'e, 'w) prog" where
  "logger l msg = (\<lambda>(w, lg). (Inr (), (w, lg @ [(l, msg)])))"

definition run_query :: "('e, 'w) client \<Rightarrow> query \<Rightarrow> (frame, 'e, 'w) prog" where
  "run_query client q = (\<lambda>(w, lg).
     case client q w of (Inl e, w') \<Rightarrow> (Inl (Engine e), (w', lg)) | (Inr df, w') \<Rightarrow> (Inr df, (w', lg)))"

text \<open>A list comprehension or a \<^verbatim>\<open>for\<close> loop whose body has effects: left to right, and
  the first exception ends it.\<close>

fun map_p :: "('a \<Rightarrow> ('b, 'e, 'w) prog) \<Rightarrow> 'a list \<Rightarrow> ('b list, 'e, 'w) prog" where
  "map_p f [] = return_p []"
| "map_p f (x # xs) = bind_p (f x) (\<lambda>y. bind_p (map_p f xs) (\<lambda>ys. return_p (y # ys)))"

fun fold_p :: "('a \<Rightarrow> 'b \<Rightarrow> ('b, 'e, 'w) prog) \<Rightarrow> 'a list \<Rightarrow> 'b \<Rightarrow> ('b, 'e, 'w) prog" where
  "fold_p f [] acc = return_p acc"
| "fold_p f (x # xs) acc = bind_p (f x acc) (\<lambda>acc'. fold_p f xs acc')"

text \<open>
  The methods are coroutines (\<^verbatim>\<open>async def\<close>). Python turns a \<^verbatim>\<open>StopIteration\<close> that leaves
  a coroutine into a \<^verbatim>\<open>RuntimeError\<close>; every other exception leaves it unchanged.
\<close>

definition coroutine :: "('a, 'e, 'w) prog \<Rightarrow> ('a, 'e, 'w) prog" where
  "coroutine m = (\<lambda>s. case m s of
       (Inl StopIteration, s') \<Rightarrow> (Inl RuntimeError, s')
     | (r, s') \<Rightarrow> (r, s'))"

subsection \<open>Operations on values\<close>

text \<open>\<^verbatim>\<open>row['k']\<close> on a dictionary or a data-frame row, and \<^verbatim>\<open>row.k\<close> on an engine row.\<close>

definition getitem :: "row \<Rightarrow> string \<Rightarrow> (val, 'e, 'w) prog" where
  "getitem r k = (case r k of None \<Rightarrow> raise_p (KeyError k) | Some v \<Rightarrow> return_p v)"

definition getattr :: "row \<Rightarrow> string \<Rightarrow> (val, 'e, 'w) prog" where
  "getattr r k = (case r k of None \<Rightarrow> raise_p (AttributeError k) | Some v \<Rightarrow> return_p v)"

text \<open>Truth value testing: \<^verbatim>\<open>None\<close>, \<^verbatim>\<open>False\<close>, zero and the empty string are false.\<close>

fun truthy :: "val \<Rightarrow> bool" where
  "truthy VNone = False"
| "truthy (VBool b) = b"
| "truthy (VInt i) = (i \<noteq> 0)"
| "truthy (VFloat x) = (x \<noteq> 0)"
| "truthy (VStr s) = (s \<noteq> [])"

definition truthy_opt :: "string option \<Rightarrow> bool" where
  "truthy_opt s = (case s of None \<Rightarrow> False | Some t \<Rightarrow> t \<noteq> [])"

text \<open>The number a value stands for in arithmetic and comparisons (\<^verbatim>\<open>True\<close> is 1), if any.\<close>

fun num_of :: "val \<Rightarrow> real option" where
  "num_of (VInt i) = Some (of_int i)"
| "num_of (VFloat x) = Some x"
| "num_of (VBool b) = Some (if b then 1 else 0)"
| "num_of VNone = None"
| "num_of (VStr s) = None"

text \<open>
  \<^verbatim>\<open>int(x)\<close> truncates towards zero and \<^verbatim>\<open>round(x, n)\<close> rounds half to even. \<^verbatim>\<open>int\<close> and
  \<^verbatim>\<open>float\<close> of \<^verbatim>\<open>None\<close> raise TypeError; of a string that is not a numeral, ValueError
  (the columns they are applied to are numeric, so a numeral string does not occur).
\<close>

definition trunc :: "real \<Rightarrow> int" where
  "trunc x = (if 0 \<le> x then \<lfloor>x\<rfloor> else - \<lfloor>- x\<rfloor>)"

definition round_half_even :: "real \<Rightarrow> int" where
  "round_half_even y =
     (let f = \<lfloor>y\<rfloor>; d = y - of_int f
      in if d < 1 / 2 then f else if 1 / 2 < d then f + 1 else if even f then f else f + 1)"

definition py_round :: "real \<Rightarrow> nat \<Rightarrow> real" where
  "py_round x n = of_int (round_half_even (x * 10 ^ n)) / 10 ^ n"

definition py_int :: "val \<Rightarrow> (int, 'e, 'w) prog" where
  "py_int v = (case v of
       VNone \<Rightarrow> raise_p TypeError
     | VStr s \<Rightarrow> raise_p ValueError
     | VInt i \<Rightarrow> return_p i
     | VBool b \<Rightarrow> return_p (if b then 1 else 0)
     | VFloat x \<Rightarrow> return_p (trunc x))"

definition py_float :: "val \<Rightarrow> (real, 'e, 'w) prog" where
  "py_float v = (case v of
       VNone \<Rightarrow> raise_p TypeError
     | VStr s \<Rightarrow> raise_p ValueError
     | _ \<Rightarrow> return_p (the (num_of v)))"

text \<open>\<^verbatim>\<open>v * k\<close>, \<^verbatim>\<open>v > k\<close>, \<^verbatim>\<open>v >= k\<close> and \<^verbatim>\<open>v == k\<close> for a number \<open>k\<close>: arithmetic and
  ordering raise TypeError on \<^verbatim>\<open>None\<close> and on a string, equality never raises.\<close>

definition py_mul :: "val \<Rightarrow> real \<Rightarrow> (real, 'e, 'w) prog" where
  "py_mul v k = (case num_of v of None \<Rightarrow> raise_p TypeError | Some x \<Rightarrow> return_p (x * k))"

definition py_gt :: "val \<Rightarrow> real \<Rightarrow> (bool, 'e, 'w) prog" where
  "py_gt v k = (case num_of v of None \<Rightarrow> raise_p TypeError | Some x \<Rightarrow> return_p (k < x))"

definition py_ge :: "val \<Rightarrow> real \<Rightarrow> (bool, 'e, 'w) prog" where
  "py_ge v k = (case num_of v of None \<Rightarrow> raise_p TypeError | Some x \<Rightarrow> return_p (k \<le> x))"

definition py_eq_num :: "val \<Rightarrow> real \<Rightarrow> bool" where
  "py_eq_num v k = (num_of v = Some k)"

text \<open>
  Arithmetic on two values. The result of \<^verbatim>\<open>+\<close> and \<^verbatim>\<open>-\<close> is an \<^verbatim>\<open>int\<close> when both
  operands are (\<^verbatim>\<open>bool\<close> counts as \<^verbatim>\<open>int\<close>) and a \<^verbatim>\<open>float\<close> otherwise; \<^verbatim>\<open>/\<close> is true
  division and raises on a zero divisor.
\<close>

fun int_of :: "val \<Rightarrow> int option" where
  "int_of (VInt i) = Some i"
| "int_of (VBool b) = Some (if b then 1 else 0)"
| "int_of v = None"

definition py_add :: "val \<Rightarrow> val \<Rightarrow> (val, 'e, 'w) prog" where
  "py_add a b = (case (int_of a, int_of b) of
       (Some i, Some j) \<Rightarrow> return_p (VInt (i + j))
     | _ \<Rightarrow> (case (num_of a, num_of b) of
               (Some x, Some y) \<Rightarrow> return_p (VFloat (x + y))
             | _ \<Rightarrow> raise_p TypeError))"

definition py_sub :: "val \<Rightarrow> val \<Rightarrow> (val, 'e, 'w) prog" where
  "py_sub a b = (case (int_of a, int_of b) of
       (Some i, Some j) \<Rightarrow> return_p (VInt (i - j))
     | _ \<Rightarrow> (case (num_of a, num_of b) of
               (Some x, Some y) \<Rightarrow> return_p (VFloat (x - y))
             | _ \<Rightarrow> raise_p TypeError))"

definition py_mul_int :: "val \<Rightarrow> int \<Rightarrow> (val, 'e, 'w) prog" where
  "py_mul_int a k = (case int_of a of
       Some i \<Rightarrow> return_p (VInt (i * k))
     | None \<Rightarrow> (case num_of a of Some x \<Rightarrow> return_p (VFloat (x * of_int k))
                              | None \<Rightarrow> raise_p TypeError))"

definition py_truediv :: "val \<Rightarrow> val \<Rightarrow> (real, 'e, 'w) prog" where
  "py_truediv a b = (case (num_of a, num_of b) of
       (Some x, Some y) \<Rightarrow> if y = 0 then raise_p ZeroDivisionError else return_p (x / y)
     | _ \<Rightarrow> raise_p TypeError)"

text \<open>\<^verbatim>\<open>d.get(k, 0)\<close>, \<^verbatim>\<open>v or 0\<close> and \<^verbatim>\<open>list(result)[0]\<close>.\<close>

definition get_or_zero :: "row \<Rightarrow> string \<Rightarrow> val" where
  "get_or_zero d k = (case d k of None \<Rightarrow> VInt 0 | Some v \<Rightarrow> v)"

definition or_zero :: "val \<Rightarrow> val" where
  "or_zero v = (if truthy v then v else VInt 0)"

definition first_row :: "frame \<Rightarrow> (row, 'e, 'w) prog" where
  "first_row rows = (case rows of [] \<Rightarrow> raise_p IndexError | r # _ \<Rightarrow> return_p r)"


section \<open>The service: configuration and table names\<close>

text \<open>
  \<^verbatim>\<open>app.config.settings\<close> is not part of the module; the three settings the module reads are
  a parameter. The service object holds the two data set names and the three settings that
  \<^verbatim>\<open>set_table_settings\<close> overrides (\<^verbatim>\<open>_rentroll_table\<close>, \<^verbatim>\<open>_competition_table\<close>,
  \<^verbatim>\<open>_project_id\<close>, written here with the prefix \<open>priv\<close>). A table name is a string or
  \<^verbatim>\<open>None\<close>.
\<close>

record settings =
  gcp_project_id :: string
  bigquery_dataset_staging :: string
  bigquery_dataset_mart :: string

record service =
  staging_dataset :: string
  mart_dataset :: string
  priv_rentroll_table :: "string option"
  priv_competition_table :: "string option"
  priv_project_id :: string

record table_settings =
  rentroll_table :: "string option"
  competition_table :: "string option"
  project_id :: string

definition init :: "settings \<Rightarrow> service" where
  "init cfg = \<lparr> staging_dataset = bigquery_dataset_staging cfg,
                mart_dataset = bigquery_dataset_mart cfg,
                priv_rentroll_table = None,
                priv_competition_table = None,
                priv_project_id = gcp_project_id cfg \<rparr>"

text \<open>\<^verbatim>\<open>set_table_settings\<close> assigns the three fields and writes one log record (its
  leading pictograph is left out of the text).\<close>

definition assign_settings :: "service \<Rightarrow> table_settings \<Rightarrow> service" where
  "assign_settings self ts = self\<lparr> priv_rentroll_table := rentroll_table ts,
                                     priv_competition_table := competition_table ts,
                                     priv_project_id := project_id ts \<rparr>"

definition opt_val :: "string option \<Rightarrow> val" where
  "opt_val s = (case s of None \<Rightarrow> VNone | Some t \<Rightarrow> VStr t)"

definition set_table_settings :: "service \<Rightarrow> table_settings \<Rightarrow> (service, 'e, 'w) prog" where
  "set_table_settings self ts =
     (let self' = assign_settings self ts
      in bind_p (logger INFO
                  [T '' Database service updated - Rentroll: '', V (opt_val (priv_rentroll_table self')),
                   T '', Competition: '', V (opt_val (priv_competition_table self'))])
           (\<lambda>_. return_p self'))"

definition get_rentroll_table :: "settings \<Rightarrow> service \<Rightarrow> string" where
  "get_rentroll_table cfg self =
     (if truthy_opt (priv_rentroll_table self) then the (priv_rentroll_table self)
      else gcp_project_id cfg @ ''.rentroll.Update_7_8_native'')"

definition get_competition_table :: "settings \<Rightarrow> service \<Rightarrow> string" where
  "get_competition_table cfg self =
     (if truthy_opt (priv_competition_table self) then the (priv_competition_table self)
      else gcp_project_id cfg @ ''.rentroll.Competition'')"

definition get_table_name :: "settings \<Rightarrow> string \<Rightarrow> string \<Rightarrow> string" where
  "get_table_name cfg dataset table = ''`'' @ gcp_project_id cfg @ ''.'' @ dataset @ ''.'' @ table @ ''`''"

definition unit_snapshot :: "settings \<Rightarrow> service \<Rightarrow> string" where
  "unit_snapshot cfg self = get_table_name cfg (mart_dataset self) ''unit_snapshot''"

definition unit_competitor_pairs :: "settings \<Rightarrow> service \<Rightarrow> string" where
  "unit_competitor_pairs cfg self = get_table_name cfg (mart_dataset self) ''unit_competitor_pairs''"

section \<open>Connectivity probe and inventory listing\<close>

definition test_connection :: "('e, 'w) client \<Rightarrow> (bool, 'e, 'w) prog" where
  "test_connection client =
     try_except
       (bind_p (run_query client TestQuery) (\<lambda>_. return_p True))
       (\<lambda>e. bind_p (logger ERROR [T ''BigQuery connection test failed: '', E e]) (\<lambda>_.
            return_p False))"

text \<open>
  \<^verbatim>\<open>get_units\<close> (lines 64-154). The filters are tested for truth, so an empty string is no
  filter. Both query texts are built from the same \<^verbatim>\<open>where_clause\<close>. The body of the
  \<^verbatim>\<open>try\<close> is a definition of its own.
\<close>

definition where_conditions :: "string option \<Rightarrow> string option \<Rightarrow> bool \<Rightarrow> cond list" where
  "where_conditions status_filter property_filter needs_pricing_only =
     [HasCompleteData]
     @ (if truthy_opt status_filter then [StatusEq (the status_filter)] else [])
     @ (if truthy_opt property_filter then [PropertyEq (the property_filter)] else [])
     @ (if needs_pricing_only then [NeedsPricing] else [])"

definition count_query :: "settings \<Rightarrow> service \<Rightarrow> string option \<Rightarrow> string option \<Rightarrow> bool \<Rightarrow> query" where
  "count_query cfg self status_filter property_filter needs_pricing_only =
     CountQuery (unit_snapshot cfg self)
       (where_conditions status_filter property_filter needs_pricing_only)"

definition data_query ::
  "settings \<Rightarrow> service \<Rightarrow> int \<Rightarrow> int \<Rightarrow> string option \<Rightarrow> string option \<Rightarrow> bool \<Rightarrow> query" where
  "data_query cfg self page page_size status_filter property_filter needs_pricing_only =
     (let offset = (page - 1) * page_size
      in DataQuery (unit_snapshot cfg self)
           (where_conditions status_filter property_filter needs_pricing_only) page_size offset)"

definition next_iter :: "frame \<Rightarrow> (row, 'e, 'w) prog" where
  "next_iter rows = (case rows of [] \<Rightarrow> raise_p StopIteration | r # _ \<Rightarrow> return_p r)"

definition get_units_body ::
  "settings \<Rightarrow> service \<Rightarrow> ('e, 'w) client \<Rightarrow> int \<Rightarrow> int \<Rightarrow> string option \<Rightarrow> string option \<Rightarrow> bool
     \<Rightarrow> (frame \<times> val, 'e, 'w) prog" where
  "get_units_body cfg self client page page_size status_filter property_filter needs_pricing_only =
     bind_p (run_query client (count_query cfg self status_filter property_filter needs_pricing_only))
       (\<lambda>count_result.
     bind_p (next_iter count_result) (\<lambda>first.
     bind_p (getattr first ''total_count'') (\<lambda>total_count.
     bind_p (run_query client
               (data_query cfg self page page_size status_filter property_filter needs_pricing_only))
       (\<lambda>units.
     bind_p (logger INFO [T ''Retrieved '', N (int (length units)), T '' units (page '', N page,
                          T '', total: '', V total_count, T '')'']) (\<lambda>_.
     return_p (units, total_count))))))"

definition get_units ::
  "settings \<Rightarrow> service \<Rightarrow> ('e, 'w) client \<Rightarrow> int \<Rightarrow> int \<Rightarrow> string option \<Rightarrow> string option \<Rightarrow> bool
     \<Rightarrow> (frame \<times> val, 'e, 'w) prog" where
  "get_units cfg self client page page_size status_filter property_filter needs_pricing_only =
     coroutine (try_except
       (get_units_body cfg self client page page_size status_filter property_filter needs_pricing_only)
       (\<lambda>e. bind_p (logger ERROR [T ''Error fetching units: '', E e]) (\<lambda>_. raise_p e)))"

text \<open>\<^verbatim>\<open>get_unit_by_id\<close> (lines 156-189): the first row, or \<^verbatim>\<open>None\<close> when there is none.\<close>

definition get_unit_by_id_body ::
  "settings \<Rightarrow> service \<Rightarrow> ('e, 'w) client \<Rightarrow> string \<Rightarrow> (row option, 'e, 'w) prog" where
  "get_unit_by_id_body cfg self client unit_id =
     bind_p (run_query client (UnitByIdQuery (unit_snapshot cfg self) unit_id)) (\<lambda>rows.
     return_p (case rows of [] \<Rightarrow> None | r # _ \<Rightarrow> Some r))"

definition get_unit_by_id ::
  "settings \<Rightarrow> service \<Rightarrow> ('e, 'w) client \<Rightarrow> string \<Rightarrow> (row option, 'e, 'w) prog" where
  "get_unit_by_id cfg self client unit_id =
     try_except (get_unit_by_id_body cfg self client unit_id)
       (\<lambda>e. bind_p (logger ERROR [T ''Error fetching unit '', T unit_id, T '': '', E e]) (\<lambda>_.
            raise_p e))"

text \<open>\<^verbatim>\<open>get_unit_comparables\<close> (lines 191-227): the handler returns an empty data frame.\<close>

definition get_unit_comparables ::
  "settings \<Rightarrow> service \<Rightarrow> ('e, 'w) client \<Rightarrow> string \<Rightarrow> (frame, 'e, 'w) prog" where
  "get_unit_comparables cfg self client unit_id =
     try_except
       (bind_p (run_query client (ComparablesQuery (unit_competitor_pairs cfg self) unit_id)) (\<lambda>df.
        bind_p (logger INFO [T ''Retrieved '', N (int (length df)), T '' comparables for unit '',
                             T unit_id]) (\<lambda>_.
        return_p df)))
       (\<lambda>e. bind_p (logger ERROR [T ''Error fetching comparables for unit '', T unit_id, T '': '',
                                  E e]) (\<lambda>_.
            return_p []))"

text \<open>\<^verbatim>\<open>get_vacant_units\<close> (lines 229-269): the limit clause is there for a limit that is
  neither \<^verbatim>\<open>None\<close> nor zero.\<close>

definition limit_clause :: "int option \<Rightarrow> int option" where
  "limit_clause limit = (case limit of None \<Rightarrow> None | Some n \<Rightarrow> if n \<noteq> 0 then Some n else None)"

definition get_vacant_units_body ::
  "settings \<Rightarrow> service \<Rightarrow> ('e, 'w) client \<Rightarrow> int option \<Rightarrow> (frame, 'e, 'w) prog" where
  "get_vacant_units_body cfg self client limit =
     bind_p (run_query client (VacantUnitsQuery (unit_snapshot cfg self) (limit_clause limit)))
       (\<lambda>units.
     bind_p (logger INFO [T ''Retrieved '', N (int (length units)), T '' vacant units'']) (\<lambda>_.
     return_p units))"

definition get_vacant_units ::
  "settings \<Rightarrow> service \<Rightarrow> ('e, 'w) client \<Rightarrow> int option \<Rightarrow> (frame, 'e, 'w) prog" where
  "get_vacant_units cfg self client limit =
     try_except (get_vacant_units_body cfg self client limit)
       (\<lambda>e. bind_p (logger ERROR [T ''Error fetching vacant units: '', E e]) (\<lambda>_. raise_p e))"

text \<open>\<^verbatim>\<open>get_properties\<close> (lines 271-286): the handler returns an empty list.\<close>

definition get_properties :: "settings \<Rightarrow> service \<Rightarrow> ('e, 'w) client \<Rightarrow> (val list, 'e, 'w) prog" where
  "get_properties cfg self client =
     try_except
       (bind_p (run_query client (PropertiesQuery (unit_snapshot cfg self))) (\<lambda>result.
        map_p (\<lambda>r. getattr r ''property'') result))
       (\<lambda>e. bind_p (logger ERROR [T ''Error fetching properties: '', E e]) (\<lambda>_. return_p []))"

text \<open>\<^verbatim>\<open>get_unit_types_summary\<close> (lines 288-316): a dictionary keyed by unit type (the
  entry is evaluated before its key); the handler returns an empty dictionary.\<close>

definition float_or_zero :: "val \<Rightarrow> (val, 'e, 'w) prog" where
  "float_or_zero v = (if truthy v then bind_p (py_float v) (\<lambda>x. return_p (VFloat x))
                      else return_p (VInt 0))"

definition summary_entry :: "row \<Rightarrow> (val \<rightharpoonup> row) \<Rightarrow> (val \<rightharpoonup> row, 'e, 'w) prog" where
  "summary_entry r summary =
     bind_p (getattr r ''total_units'') (\<lambda>total_units.
     bind_p (getattr r ''units_needing_pricing'') (\<lambda>units_needing_pricing.
     bind_p (getattr r ''avg_rent'') (\<lambda>avg_rent.
     bind_p (float_or_zero avg_rent) (\<lambda>avg_rent'.
     bind_p (getattr r ''avg_rent_per_sqft'') (\<lambda>avg_rent_per_sqft.
     bind_p (float_or_zero avg_rent_per_sqft) (\<lambda>avg_rent_per_sqft'.
     bind_p (getattr r ''unit_type'') (\<lambda>unit_type.
     return_p (summary(unit_type \<mapsto>
       [''total_units'' \<mapsto> total_units,
        ''units_needing_pricing'' \<mapsto> units_needing_pricing,
        ''avg_rent'' \<mapsto> avg_rent',
        ''avg_rent_per_sqft'' \<mapsto> avg_rent_per_sqft'])))))))))"

definition get_unit_types_summary ::
  "settings \<Rightarrow> service \<Rightarrow> ('e, 'w) client \<Rightarrow> (val \<rightharpoonup> row, 'e, 'w) prog" where
  "get_unit_types_summary cfg self client =
     try_except
       (bind_p (run_query client (UnitTypesQuery (unit_snapshot cfg self))) (\<lambda>result.
        fold_p summary_entry result Map.empty))
       (\<lambda>e. bind_p (logger ERROR [T ''Error fetching unit types summary: '', E e]) (\<lambda>_.
            return_p Map.empty))"

section \<open>Portfolio and market analytics\<close>

text \<open>
  \<^verbatim>\<open>get_portfolio_analytics\<close> (lines 318-415). The first query selects one column, a JSON
  object; a row of its result stands for that object, so \<^verbatim>\<open>list(result)[0]['portfolio_json']\<close>
  is the first row. The occupancy rate (line 405) is a conditional expression: the test
  \<^verbatim>\<open>total_units > 0\<close> comes first, and the division is evaluated only when it holds.
\<close>

record portfolio_analytics =
  portfolio :: row
  urgency_breakdown :: frame
  property_performance :: frame

definition occupancy_rate :: "row \<Rightarrow> (val, 'e, 'w) prog" where
  "occupancy_rate d =
     bind_p (getitem d ''total_units'') (\<lambda>total_units.
     bind_p (py_gt total_units 0) (\<lambda>positive.
     if positive then
       bind_p (getitem d ''occupied_units'') (\<lambda>occupied_units.
       bind_p (getitem d ''total_units'') (\<lambda>total_units'.
       bind_p (py_truediv occupied_units total_units') (\<lambda>ratio.
       return_p (VFloat (ratio * 100)))))
     else return_p (VInt 0)))"

definition difference :: "row \<Rightarrow> string \<Rightarrow> string \<Rightarrow> (val, 'e, 'w) prog" where
  "difference d a b =
     bind_p (getitem d a) (\<lambda>x.
     bind_p (getitem d b) (\<lambda>y.
     py_sub x y))"

definition get_portfolio_analytics_body ::
  "settings \<Rightarrow> service \<Rightarrow> ('e, 'w) client \<Rightarrow> (portfolio_analytics, 'e, 'w) prog" where
  "get_portfolio_analytics_body cfg self client =
     bind_p (run_query client (PortfolioQuery (unit_snapshot cfg self))) (\<lambda>result.
     bind_p (first_row result) (\<lambda>portfolio_data.
     bind_p (run_query client (UrgencyQuery (unit_snapshot cfg self))) (\<lambda>urgency.
     bind_p (run_query client (PropertyQuery (unit_snapshot cfg self))) (\<lambda>performance.
     bind_p (occupancy_rate portfolio_data) (\<lambda>rate.
     let portfolio_data1 = portfolio_data(''occupancy_rate'' \<mapsto> rate) in
     bind_p (difference portfolio_data1 ''total_revenue_potential'' ''current_annual_revenue'')
       (\<lambda>potential.
     let portfolio_data2 = portfolio_data1(''revenue_optimization_potential'' \<mapsto> potential) in
     return_p \<lparr> portfolio = portfolio_data2, urgency_breakdown = urgency,
                property_performance = performance \<rparr>))))))"

definition get_portfolio_analytics ::
  "settings \<Rightarrow> service \<Rightarrow> ('e, 'w) client \<Rightarrow> (portfolio_analytics, 'e, 'w) prog" where
  "get_portfolio_analytics cfg self client =
     try_except (get_portfolio_analytics_body cfg self client)
       (\<lambda>e. bind_p (logger ERROR [T ''Error fetching portfolio analytics: '', E e]) (\<lambda>_.
            raise_p e))"

text \<open>\<^verbatim>\<open>get_market_position_analytics\<close> (lines 417-488).\<close>

record market_position_analytics =
  market_summary :: frame
  unit_type_comparison :: frame

definition get_market_position_analytics_body ::
  "settings \<Rightarrow> service \<Rightarrow> ('e, 'w) client \<Rightarrow> (market_position_analytics, 'e, 'w) prog" where
  "get_market_position_analytics_body cfg self client =
     bind_p (run_query client
               (MarketSummaryQuery (unit_snapshot cfg self) (unit_competitor_pairs cfg self)))
       (\<lambda>summary.
     bind_p (run_query client
               (UnitTypeQuery (unit_snapshot cfg self) (unit_competitor_pairs cfg self)))
       (\<lambda>comparison.
     return_p \<lparr> market_summary = summary, unit_type_comparison = comparison \<rparr>))"

definition get_market_position_analytics ::
  "settings \<Rightarrow> service \<Rightarrow> ('e, 'w) client \<Rightarrow> (market_position_analytics, 'e, 'w) prog" where
  "get_market_position_analytics cfg self client =
     try_except (get_market_position_analytics_body cfg self client)
       (\<lambda>e. bind_p (logger ERROR [T ''Error fetching market position analytics: '', E e]) (\<lambda>_.
            raise_p e))"

text \<open>\<^verbatim>\<open>get_pricing_opportunities\<close> (lines 490-573).\<close>

record pricing_opportunities =
  summary :: row
  top_opportunities :: frame

definition get_pricing_opportunities_body ::
  "settings \<Rightarrow> service \<Rightarrow> ('e, 'w) client \<Rightarrow> (pricing_opportunities, 'e, 'w) prog" where
  "get_pricing_opportunities_body cfg self client =
     bind_p (run_query client
               (PricingSummaryQuery (unit_snapshot cfg self) (unit_competitor_pairs cfg self)))
       (\<lambda>result.
     bind_p (first_row result) (\<lambda>summary_row.
     bind_p (run_query client (TopQuery (unit_snapshot cfg self) (unit_competitor_pairs cfg self)))
       (\<lambda>top.
     return_p \<lparr> summary = summary_row, top_opportunities = top \<rparr>)))"

definition get_pricing_opportunities ::
  "settings \<Rightarrow> service \<Rightarrow> ('e, 'w) client \<Rightarrow> (pricing_opportunities, 'e, 'w) prog" where
  "get_pricing_opportunities cfg self client =
     try_except (get_pricing_opportunities_body cfg self client)
       (\<lambda>e. bind_p (logger ERROR [T ''Error fetching pricing opportunities: '', E e]) (\<lambda>_.
            raise_p e))"

section \<open>Property against competition\<close>

subsection \<open>Overview by unit type (lines 579-658)\<close>

text \<open>The unit type chooses the bedroom label of the competition table; the label is
  interpolated between single quotes.\<close>

definition bed_filter :: "val \<Rightarrow> string" where
  "bed_filter unit_type =
     (if unit_type = VStr ''1BR'' then ''1 Bed''
      else if unit_type = VStr ''2BR'' then ''2 Beds''
      else if unit_type = VStr ''3BR'' then ''3 Beds''
      else if unit_type = VStr ''4BR+'' then ''4 Beds''
      else if unit_type = VStr ''STUDIO'' then ''Studio''
      else ''1 Bed'')"

text \<open>\<^verbatim>\<open>market_query\<close> (lines 618-628) is built outside the inner \<^verbatim>\<open>try\<close>: the two ends of
  the price band are \<^verbatim>\<open>row['avg_our_rent'] * 0.7\<close> and \<^verbatim>\<open>row['avg_our_rent'] * 1.3\<close>.\<close>

definition market_query :: "settings \<Rightarrow> service \<Rightarrow> row \<Rightarrow> (query, 'e, 'w) prog" where
  "market_query cfg self row =
     bind_p (getitem row ''unit_type'') (\<lambda>unit_type.
     bind_p (getitem row ''avg_our_rent'') (\<lambda>rent.
     bind_p (py_mul rent (7 / 10)) (\<lambda>lo.
     bind_p (py_mul rent (13 / 10)) (\<lambda>hi.
     return_p (MarketQuery (get_competition_table cfg self) (bed_filter unit_type) lo hi)))))"

text \<open>The test of line 632: the first row of the result, when there is one, its
  \<^verbatim>\<open>avg_market_rent\<close> is not \<^verbatim>\<open>None\<close> and its \<^verbatim>\<open>comp_count\<close> is positive.\<close>

definition comps_found :: "frame \<Rightarrow> (row option, 'e, 'w) prog" where
  "comps_found df = (case df of
       [] \<Rightarrow> return_p None
     | m # _ \<Rightarrow>
         bind_p (getitem m ''avg_market_rent'') (\<lambda>avg_market_rent.
         if avg_market_rent = VNone then return_p None
         else bind_p (getitem m ''comp_count'') (\<lambda>comp_count.
              bind_p (py_gt comp_count 0) (\<lambda>positive.
              return_p (if positive then Some m else None)))))"

text \<open>\<^verbatim>\<open>round((ours - market) / market * 100, 1)\<close>, lines 636-639 and 719-722.\<close>

definition gap_pct :: "row \<Rightarrow> val \<Rightarrow> (real, 'e, 'w) prog" where
  "gap_pct row market =
     bind_p (getitem row ''avg_our_rent'') (\<lambda>ours.
     bind_p (py_sub ours market) (\<lambda>diff.
     bind_p (py_truediv diff market) (\<lambda>ratio.
     return_p (py_round (ratio * 100) 1))))"

text \<open>Lines 633-642: the values taken from the competition table.\<close>

definition overview_market :: "row \<Rightarrow> row \<Rightarrow> row \<Rightarrow> (row, 'e, 'w) prog" where
  "overview_market row row_dict m =
     bind_p (getitem m ''avg_market_rent'') (\<lambda>avg_market_rent.
     bind_p (py_int avg_market_rent) (\<lambda>i.
     let row_dict1 = row_dict(''avg_market_rent'' \<mapsto> VInt i) in
     bind_p (getitem m ''avg_market_rent_per_sqft'') (\<lambda>per_sqft.
     bind_p (py_float (or_zero per_sqft)) (\<lambda>f.
     let row_dict2 = row_dict1(''avg_market_rent_per_sqft'' \<mapsto> VFloat f) in
     bind_p (py_gt avg_market_rent 0) (\<lambda>positive.
     bind_p (if positive then bind_p (gap_pct row avg_market_rent) (\<lambda>p. return_p (VFloat p))
             else return_p (VInt 0)) (\<lambda>pct.
     let row_dict3 = row_dict2(''avg_premium_discount_pct'' \<mapsto> pct) in
     bind_p (getitem m ''comp_count'') (\<lambda>comp_count.
     bind_p (getitem row ''unit_type'') (\<lambda>unit_type.
     bind_p (logger INFO [T ''Found '', V comp_count, T '' comps for '', V unit_type, T '': $'',
                          V avg_market_rent]) (\<lambda>_.
     return_p row_dict3)))))))))"

text \<open>Lines 645-647 and 652-654: the synthetic values.\<close>

definition overview_fallback :: "row \<Rightarrow> row \<Rightarrow> (row, 'e, 'w) prog" where
  "overview_fallback row row_dict =
     bind_p (getitem row ''avg_our_rent'') (\<lambda>rent.
     bind_p (py_mul rent (105 / 100)) (\<lambda>x.
     let row_dict1 = row_dict(''avg_market_rent'' \<mapsto> VInt (trunc x)) in
     bind_p (getitem row ''avg_our_rent_per_sqft'') (\<lambda>per_sqft.
     bind_p (py_mul per_sqft (105 / 100)) (\<lambda>y.
     let row_dict2 = row_dict1(''avg_market_rent_per_sqft'' \<mapsto> VFloat (py_round y 2)) in
     return_p (row_dict2(''avg_premium_discount_pct'' \<mapsto> VFloat (- 48 / 10)))))))"

definition quoted :: "string \<Rightarrow> string" where
  "quoted s = [CHR 0x27] @ s @ [CHR 0x27]"

text \<open>The body of the loop over the overview rows (lines 601-656).\<close>

definition enrich_overview_row ::
  "settings \<Rightarrow> service \<Rightarrow> ('e, 'w) client \<Rightarrow> row \<Rightarrow> (row, 'e, 'w) prog" where
  "enrich_overview_row cfg self client row =
     (let row_dict = row in
      bind_p (getitem row ''unit_type'') (\<lambda>unit_type.
      bind_p (market_query cfg self row) (\<lambda>q.
      try_except
        (bind_p (run_query client q) (\<lambda>market_result.
         bind_p (comps_found market_result) (\<lambda>found.
         case found of
           Some m \<Rightarrow> overview_market row row_dict m
         | None \<Rightarrow>
             bind_p (overview_fallback row row_dict) (\<lambda>row_dict'.
             bind_p (logger INFO [T ''No comps found for '', V unit_type, T '' with filter '',
                                  T (quoted (bed_filter unit_type))]) (\<lambda>_.
             return_p row_dict')))))
        (\<lambda>e.
           bind_p (logger WARNING [T ''Competition query failed for '', V unit_type, T '': '', E e])
             (\<lambda>_.
           overview_fallback row row_dict)))))"

subsection \<open>Rent comparison by bedroom count (lines 661-745)\<close>

definition bed_text :: "val \<Rightarrow> (string, 'e, 'w) prog" where
  "bed_text bed =
     (if py_eq_num bed 0 then return_p ''Studio''
      else if py_eq_num bed 1 then return_p ''1 Bed''
      else if py_eq_num bed 2 then return_p ''2 Beds''
      else if py_eq_num bed 3 then return_p ''3 Beds''
      else bind_p (py_ge bed 4) (\<lambda>ge. return_p (if ge then ''4 Beds'' else ''1 Bed'')))"

text \<open>\<^verbatim>\<open>comp_query\<close> (lines 697-708) has the table name and the bedroom label as its only
  holes.\<close>

definition comp_query :: "settings \<Rightarrow> service \<Rightarrow> row \<Rightarrow> (query, 'e, 'w) prog" where
  "comp_query cfg self row =
     bind_p (getitem row ''bed'') (\<lambda>bed.
     bind_p (bed_text bed) (\<lambda>label.
     return_p (CompQuery (get_competition_table cfg self) label)))"

definition int_or_zero :: "row \<Rightarrow> string \<Rightarrow> (val, 'e, 'w) prog" where
  "int_or_zero m k =
     bind_p (getitem m k) (\<lambda>v.
     bind_p (py_int (or_zero v)) (\<lambda>i.
     return_p (VInt i)))"

definition comparison_market :: "row \<Rightarrow> row \<Rightarrow> row \<Rightarrow> (row, 'e, 'w) prog" where
  "comparison_market row row_dict m =
     bind_p (int_or_zero m ''avg_market_rent'') (\<lambda>avg.
     bind_p (int_or_zero m ''min_market_rent'') (\<lambda>lo.
     bind_p (int_or_zero m ''max_market_rent'') (\<lambda>hi.
     bind_p (getitem m ''avg_market_rent_per_sqft'') (\<lambda>per_sqft.
     bind_p (py_float (or_zero per_sqft)) (\<lambda>f.
     bind_p (int_or_zero m ''comp_count'') (\<lambda>n.
     let row_dict1 = row_dict(''avg_market_rent'' \<mapsto> avg, ''min_market_rent'' \<mapsto> lo,
                              ''max_market_rent'' \<mapsto> hi, ''avg_market_rent_per_sqft'' \<mapsto> VFloat f,
                              ''comp_count'' \<mapsto> n) in
     bind_p (getitem m ''avg_market_rent'') (\<lambda>avg_market_rent.
     bind_p (if truthy avg_market_rent then py_gt avg_market_rent 0 else return_p False)
       (\<lambda>positive.
     bind_p (if positive then bind_p (gap_pct row avg_market_rent) (\<lambda>p. return_p (VFloat p))
             else return_p (VInt 0)) (\<lambda>pct.
     let row_dict2 = row_dict1(''rent_gap_pct'' \<mapsto> pct) in
     bind_p (getitem m ''comp_count'') (\<lambda>comp_count.
     bind_p (getitem row ''bed'') (\<lambda>bed.
     bind_p (logger INFO [T ''Found '', V comp_count, T '' comps for '', V bed, T '' bed: $'',
                          V avg_market_rent]) (\<lambda>_.
     return_p row_dict2))))))))))))"

definition scaled_int :: "row \<Rightarrow> string \<Rightarrow> real \<Rightarrow> (val, 'e, 'w) prog" where
  "scaled_int row k factor =
     bind_p (getitem row k) (\<lambda>v.
     bind_p (py_mul v factor) (\<lambda>x.
     return_p (VInt (trunc x))))"

definition comparison_fallback :: "row \<Rightarrow> row \<Rightarrow> (row, 'e, 'w) prog" where
  "comparison_fallback row row_dict =
     bind_p (scaled_int row ''avg_our_rent'' (105 / 100)) (\<lambda>avg.
     bind_p (scaled_int row ''min_our_rent'' (95 / 100)) (\<lambda>lo.
     bind_p (scaled_int row ''max_our_rent'' (115 / 100)) (\<lambda>hi.
     bind_p (getitem row ''avg_our_rent_per_sqft'') (\<lambda>per_sqft.
     bind_p (py_mul per_sqft (105 / 100)) (\<lambda>y.
     return_p (row_dict(''avg_market_rent'' \<mapsto> avg, ''min_market_rent'' \<mapsto> lo,
                        ''max_market_rent'' \<mapsto> hi,
                        ''avg_market_rent_per_sqft'' \<mapsto> VFloat (py_round y 2),
                        ''comp_count'' \<mapsto> VInt 25,
                        ''rent_gap_pct'' \<mapsto> VFloat (- 48 / 10))))))))"

definition enrich_comparison_row ::
  "settings \<Rightarrow> service \<Rightarrow> ('e, 'w) client \<Rightarrow> row \<Rightarrow> (row, 'e, 'w) prog" where
  "enrich_comparison_row cfg self client row =
     (let row_dict = row in
      bind_p (getitem row ''bed'') (\<lambda>bed.
      bind_p (bed_text bed) (\<lambda>label.
      bind_p (comp_query cfg self row) (\<lambda>q.
      try_except
        (bind_p (run_query client q) (\<lambda>comp_result.
         bind_p (comps_found comp_result) (\<lambda>found.
         case found of
           Some m \<Rightarrow> comparison_market row row_dict m
         | None \<Rightarrow>
             bind_p (comparison_fallback row row_dict) (\<lambda>row_dict'.
             bind_p (logger INFO [T ''No comps found for '', V bed, T '' bed with filter '',
                                  T (quoted label)]) (\<lambda>_.
             return_p row_dict')))))
        (\<lambda>e.
           bind_p (logger WARNING [T ''Competition query failed for '', V bed, T '' bed: '', E e])
             (\<lambda>_.
           comparison_fallback row row_dict))))))"

subsection \<open>Performance metrics and the whole method (lines 575-784)\<close>

text \<open>Lines 766-770: the occupancy rate of the property.\<close>

definition performance_occupancy_rate :: "row \<Rightarrow> (val, 'e, 'w) prog" where
  "performance_occupancy_rate performance_data =
     bind_p (getitem performance_data ''total_units'') (\<lambda>total_units.
     bind_p (py_gt total_units 0) (\<lambda>positive.
     if positive then
       bind_p (getitem performance_data ''occupied_units'') (\<lambda>occupied_units.
       bind_p (py_truediv occupied_units total_units) (\<lambda>ratio.
       return_p (VFloat (ratio * 100))))
     else return_p (VInt 0)))"

record property_vs_competition =
  property_name :: string
  overview_by_unit_type :: frame
  rent_comparison_by_bedrooms :: frame
  performance_metrics :: row

definition get_property_vs_competition_analysis_body ::
  "settings \<Rightarrow> service \<Rightarrow> ('e, 'w) client \<Rightarrow> string \<Rightarrow> (property_vs_competition, 'e, 'w) prog" where
  "get_property_vs_competition_analysis_body cfg self client name =
     bind_p (run_query client (OverviewQuery (unit_snapshot cfg self) name)) (\<lambda>overview_result.
     bind_p (logger INFO [T ''Overview query returned '', N (int (length overview_result)),
                          T '' rows for property: '', T name]) (\<lambda>_.
     bind_p (map_p (enrich_overview_row cfg self client) overview_result) (\<lambda>overview_data.
     bind_p (logger INFO [T ''Overview data created: '', N (int (length overview_data)),
                          T '' unit types'']) (\<lambda>_.
     bind_p (run_query client (RentComparisonQuery (unit_snapshot cfg self) name))
       (\<lambda>rent_comparison_result.
     bind_p (map_p (enrich_comparison_row cfg self client) rent_comparison_result)
       (\<lambda>rent_comparison_data.
     bind_p (run_query client (PerformanceQuery (unit_snapshot cfg self) name))
       (\<lambda>performance_result.
     bind_p (first_row performance_result) (\<lambda>performance_data.
     bind_p (performance_occupancy_rate performance_data) (\<lambda>rate.
     let performance_data1 = performance_data(''occupancy_rate'' \<mapsto> rate) in
     bind_p (difference performance_data1 ''total_revenue_potential'' ''current_annual_revenue'')
       (\<lambda>opportunity.
     let performance_data2 = performance_data1(''revenue_opportunity'' \<mapsto> opportunity) in
     return_p \<lparr> property_name = name, overview_by_unit_type = overview_data,
                rent_comparison_by_bedrooms = rent_comparison_data,
                performance_metrics = performance_data2 \<rparr>))))))))))"

definition get_property_vs_competition_analysis ::
  "settings \<Rightarrow> service \<Rightarrow> ('e, 'w) client \<Rightarrow> string \<Rightarrow> (property_vs_competition, 'e, 'w) prog" where
  "get_property_vs_competition_analysis cfg self client name =
     try_except (get_property_vs_competition_analysis_body cfg self client name)
       (\<lambda>e. bind_p (logger ERROR [T ''Error fetching property vs competition analysis for '',
                                  T name, T '': '', E e]) (\<lambda>_.
            raise_p e))"

section \<open>Unit-level analysis of a property (lines 786-902)\<close>

text \<open>The summary is computed from the rows of the one query: \<^verbatim>\<open>sum(1 for unit in units_data
  if unit.get('potential_rent_increase', 0) > 50)\<close> and the sum of the increases.\<close>

fun count_above :: "real \<Rightarrow> frame \<Rightarrow> (int, 'e, 'w) prog" where
  "count_above k [] = return_p 0"
| "count_above k (u # us) =
     bind_p (py_gt (get_or_zero u ''potential_rent_increase'') k) (\<lambda>above.
     bind_p (count_above k us) (\<lambda>n.
     return_p ((if above then 1 else 0) + n)))"

definition total_increase :: "frame \<Rightarrow> (val, 'e, 'w) prog" where
  "total_increase units_data =
     fold_p (\<lambda>u acc. py_add acc (or_zero (get_or_zero u ''potential_rent_increase'')))
       units_data (VInt 0)"

record unit_analysis =
  ua_property_name :: string
  units :: frame
  ua_summary :: row

definition get_property_unit_analysis_body ::
  "settings \<Rightarrow> service \<Rightarrow> ('e, 'w) client \<Rightarrow> string \<Rightarrow> (unit_analysis, 'e, 'w) prog" where
  "get_property_unit_analysis_body cfg self client name =
     bind_p (run_query client
               (UnitsQuery (unit_snapshot cfg self) (get_competition_table cfg self) name))
       (\<lambda>units_data.
     bind_p (logger INFO [T ''Units query returned '', N (int (length units_data)),
                          T '' rows for property: '', T name]) (\<lambda>_.
     let total_units = int (length units_data) in
     bind_p (count_above 50 units_data) (\<lambda>units_50plus.
     bind_p (count_above 100 units_data) (\<lambda>units_100plus.
     bind_p (total_increase units_data) (\<lambda>total_monthly_opp.
     bind_p (py_mul_int total_monthly_opp 12) (\<lambda>total_annual_opp.
     bind_p (if 0 < total_units
             then bind_p (py_truediv total_monthly_opp (VInt total_units))
                    (\<lambda>x. return_p (VFloat x))
             else return_p (VInt 0)) (\<lambda>avg_rent_gap.
     let summary_data =
       [''total_units_analyzed'' \<mapsto> VInt total_units,
        ''units_50plus_below_market'' \<mapsto> VInt units_50plus,
        ''units_100plus_below_market'' \<mapsto> VInt units_100plus,
        ''total_monthly_opportunity'' \<mapsto> total_monthly_opp,
        ''total_annual_opportunity'' \<mapsto> total_annual_opp,
        ''avg_rent_gap'' \<mapsto> avg_rent_gap] in
     bind_p (logger INFO [T ''Unit analysis completed: '', N total_units, T '' units, '',
                          N units_50plus, T '' with $50+ opportunity'']) (\<lambda>_.
     return_p \<lparr> ua_property_name = name, units = units_data, ua_summary = summary_data \<rparr>))))))))"

definition get_property_unit_analysis ::
  "settings \<Rightarrow> service \<Rightarrow> ('e, 'w) client \<Rightarrow> string \<Rightarrow> (unit_analysis, 'e, 'w) prog" where
  "get_property_unit_analysis cfg self client name =
     try_except (get_property_unit_analysis_body cfg self client name)
       (\<lambda>e. bind_p (logger ERROR [T ''Error fetching property unit analysis for '', T name,
                                  T '': '', E e]) (\<lambda>_.
            raise_p e))"

section \<open>Market trends of a property (lines 904-1137)\<close>

text \<open>The record that stands in for the competitors (lines 1055-1065 and 1069-1079).\<close>

definition placeholder :: "string \<Rightarrow> row" where
  "placeholder name =
     [''competitor_property'' \<mapsto> VStr name,
      ''our_units_compared'' \<mapsto> VInt 0,
      ''their_comparable_units'' \<mapsto> VInt 0,
      ''their_avg_rent'' \<mapsto> VInt 0,
      ''their_avg_rent_per_sqft'' \<mapsto> VFloat 0,
      ''avg_similarity_score'' \<mapsto> VFloat 0,
      ''their_available_units'' \<mapsto> VInt 0]"

definition competitors_query :: "settings \<Rightarrow> service \<Rightarrow> string \<Rightarrow> query" where
  "competitors_query cfg self name =
     CompetitorsQuery (unit_snapshot cfg self) (get_competition_table cfg self) name"

text \<open>Lines 1048-1079: the inner \<^verbatim>\<open>try\<close> around the competitors query.\<close>

definition top_competitors_data ::
  "settings \<Rightarrow> service \<Rightarrow> ('e, 'w) client \<Rightarrow> string \<Rightarrow> (frame, 'e, 'w) prog" where
  "top_competitors_data cfg self client name =
     try_except
       (bind_p (run_query client (competitors_query cfg self name)) (\<lambda>competitors_result.
        if 0 < length competitors_result then
          bind_p (logger INFO [T ''Found '', N (int (length competitors_result)),
                               T '' real competitors for '', T name]) (\<lambda>_.
          return_p competitors_result)
        else return_p [placeholder ''No Direct Competitors Found'']))
       (\<lambda>e. bind_p (logger WARNING [T ''Competitors query failed for '', T name, T '': '', E e])
              (\<lambda>_.
            return_p [placeholder ''Data Unavailable'']))"

record market_trends =
  mt_property_name :: string
  market_positioning :: frame
  top_competitors :: frame
  rent_distribution :: frame

definition get_property_market_trends_body ::
  "settings \<Rightarrow> service \<Rightarrow> ('e, 'w) client \<Rightarrow> string \<Rightarrow> (market_trends, 'e, 'w) prog" where
  "get_property_market_trends_body cfg self client name =
     bind_p (run_query client
               (PositioningQuery (unit_snapshot cfg self) (get_competition_table cfg self) name))
       (\<lambda>positioning_data.
     bind_p (top_competitors_data cfg self client name) (\<lambda>competitors_data.
     bind_p (run_query client (DistributionQuery (unit_snapshot cfg self) name))
       (\<lambda>distribution_data.
     return_p \<lparr> mt_property_name = name, market_positioning = positioning_data,
                top_competitors = competitors_data, rent_distribution = distribution_data \<rparr>)))"

definition get_property_market_trends ::
  "settings \<Rightarrow> service \<Rightarrow> ('e, 'w) client \<Rightarrow> string \<Rightarrow> (market_trends, 'e, 'w) prog" where
  "get_property_market_trends cfg self client name =
     try_except (get_property_market_trends_body cfg self client name)
       (\<lambda>e. bind_p (logger ERROR [T ''Error fetching property market trends for '', T name,
                                  T '': '', E e]) (\<lambda>_.
            raise_p e))"

section \<open>Diagnostics (lines 1139-1216)\<close>

record property_filter_test =
  filtered_result :: frame
  all_properties_sample :: frame
  property_searched :: string

definition test_property_filter_body ::
  "settings \<Rightarrow> service \<Rightarrow> ('e, 'w) client \<Rightarrow> string \<Rightarrow> (property_filter_test, 'e, 'w) prog" where
  "test_property_filter_body cfg self client name =
     bind_p (run_query client (TestFilterQuery (unit_snapshot cfg self) name)) (\<lambda>result.
     bind_p (run_query client (AllPropertiesQuery (unit_snapshot cfg self))) (\<lambda>all_result.
     return_p \<lparr> filtered_result = result, all_properties_sample = all_result,
                property_searched = name \<rparr>))"

definition test_property_filter ::
  "settings \<Rightarrow> service \<Rightarrow> ('e, 'w) client \<Rightarrow> string \<Rightarrow> (property_filter_test, 'e, 'w) prog" where
  "test_property_filter cfg self client name =
     try_except (test_property_filter_body cfg self client name)
       (\<lambda>e. bind_p (logger ERROR [T ''Error in test property filter: '', E e]) (\<lambda>_. raise_p e))"

text \<open>
  \<^verbatim>\<open>test_competition_data\<close>: the schema query names the table without its backquotes, and
  its failure is swallowed. The columns of the sample frame are the keys of its first
  row (their order is not kept).
\<close>

record competition_test =
  schema :: frame
  sample_data :: frame
  column_names :: "string set"
  table_name :: string

definition test_competition_data_body ::
  "settings \<Rightarrow> service \<Rightarrow> ('e, 'w) client \<Rightarrow> (competition_test, 'e, 'w) prog" where
  "test_competition_data_body cfg self client =
     bind_p (try_except
               (run_query client
                  (SchemaQuery (filter (\<lambda>c. c \<noteq> CHR 0x60) (get_competition_table cfg self))))
               (\<lambda>e. return_p [])) (\<lambda>schema_data.
     bind_p (run_query client (SampleQuery (get_competition_table cfg self))) (\<lambda>sample_result.
     return_p \<lparr> schema = schema_data, sample_data = sample_result,
                column_names = (case sample_result of [] \<Rightarrow> {} | r # _ \<Rightarrow> dom r),
                table_name = get_competition_table cfg self \<rparr>))"

definition test_competition_data ::
  "settings \<Rightarrow> service \<Rightarrow> ('e, 'w) client \<Rightarrow> (competition_test, 'e, 'w) prog" where
  "test_competition_data cfg self client =
     try_except (test_competition_data_body cfg self client)
       (\<lambda>e. bind_p (logger ERROR [T ''Error testing competition data: '', E e]) (\<lambda>_. raise_p e))"

section \<open>What the SQL texts compute\<close>

text \<open>
  The SQL is part of the source; the engine that runs it is not. This section gives the
  queries that the properties below depend on their meaning over tables, so that a
  property can say "when the engine answers this query over these tables". A table is a
  list of rows; a cell that is missing, \<open>VNone\<close> or not of the column's type reads as NULL.
  The conditions of WHERE, ON, HAVING and WHEN in these queries are conjunctions of
  comparisons, and a row passes only when the condition is true, so a comparison with a
  NULL operand is modelled by \<open>False\<close>.
\<close>

definition str_col :: "row \<Rightarrow> string \<Rightarrow> string option" where
  "str_col r k = (case r k of Some (VStr s) \<Rightarrow> Some s | _ \<Rightarrow> None)"

definition num_col :: "row \<Rightarrow> string \<Rightarrow> real option" where
  "num_col r k = (case r k of Some (VInt i) \<Rightarrow> Some (of_int i) | Some (VFloat x) \<Rightarrow> Some x | _ \<Rightarrow> None)"

definition is_true_col :: "row \<Rightarrow> string \<Rightarrow> bool" where
  "is_true_col r k = (r k = Some (VBool True))"

definition sql_lt :: "real option \<Rightarrow> real option \<Rightarrow> bool" where
  "sql_lt a b = (case (a, b) of (Some x, Some y) \<Rightarrow> x < y | _ \<Rightarrow> False)"

definition sql_le :: "real option \<Rightarrow> real option \<Rightarrow> bool" where
  "sql_le a b = (case (a, b) of (Some x, Some y) \<Rightarrow> x \<le> y | _ \<Rightarrow> False)"

definition sql_between :: "real option \<Rightarrow> real option \<Rightarrow> real option \<Rightarrow> bool" where
  "sql_between v lo hi = (sql_le lo v \<and> sql_le v hi)"

definition sql_times :: "real option \<Rightarrow> real \<Rightarrow> real option" where
  "sql_times a k = map_option (\<lambda>x. x * k) a"

text \<open>\<^verbatim>\<open>ROUND(x, n)\<close> rounds halfway cases away from zero. The aggregates skip NULLs, and
  AVG, MIN and MAX of no value are NULL.\<close>

definition sql_round :: "real \<Rightarrow> nat \<Rightarrow> real" where
  "sql_round x n = sgn x * of_int \<lfloor>\<bar>x\<bar> * 10 ^ n + 1 / 2\<rfloor> / 10 ^ n"

definition non_null :: "'a option list \<Rightarrow> 'a list" where
  "non_null xs = map the (filter (\<lambda>x. x \<noteq> None) xs)"

definition sql_avg :: "real option list \<Rightarrow> real option" where
  "sql_avg xs = (case non_null xs of [] \<Rightarrow> None | y # ys \<Rightarrow> Some (sum_list (y # ys) / of_nat (length (y # ys))))"

definition sql_min :: "real option list \<Rightarrow> real option" where
  "sql_min xs = (case non_null xs of [] \<Rightarrow> None | y # ys \<Rightarrow> Some (fold min ys y))"

definition sql_max :: "real option list \<Rightarrow> real option" where
  "sql_max xs = (case non_null xs of [] \<Rightarrow> None | y # ys \<Rightarrow> Some (fold max ys y))"

definition float_cell :: "real option \<Rightarrow> val" where
  "float_cell x = (case x of None \<Rightarrow> VNone | Some y \<Rightarrow> VFloat y)"

definition rounded :: "real option \<Rightarrow> nat \<Rightarrow> real option" where
  "rounded x n = map_option (\<lambda>y. sql_round y n) x"

text \<open>ORDER BY: insertion sort with the query's order, which keeps rows that compare
  equal in the order they had.\<close>

fun insert_by :: "('a \<Rightarrow> 'a \<Rightarrow> bool) \<Rightarrow> 'a \<Rightarrow> 'a list \<Rightarrow> 'a list" where
  "insert_by le x [] = [x]"
| "insert_by le x (y # ys) = (if le x y then x # y # ys else y # insert_by le x ys)"

fun sort_by :: "('a \<Rightarrow> 'a \<Rightarrow> bool) \<Rightarrow> 'a list \<Rightarrow> 'a list" where
  "sort_by le [] = []"
| "sort_by le (x # xs) = insert_by le x (sort_by le xs)"

subsection \<open>The two queries of the paginated listing (lines 99-138)\<close>

fun holds :: "cond \<Rightarrow> row \<Rightarrow> bool" where
  "holds HasCompleteData r = is_true_col r ''has_complete_data''"
| "holds (StatusEq s) r = (str_col r ''status'' = Some s)"
| "holds (PropertyEq p) r = (str_col r ''property'' = Some p)"
| "holds NeedsPricing r = is_true_col r ''needs_pricing''"

definition where_clause :: "cond list \<Rightarrow> row \<Rightarrow> bool" where
  "where_clause conds r = list_all (\<lambda>c. holds c r) conds"

text \<open>\<^verbatim>\<open>SELECT COUNT(*) as total_count ... WHERE {where_clause}\<close>: always one row.\<close>

definition count_rows :: "frame \<Rightarrow> cond list \<Rightarrow> frame" where
  "count_rows table conds = [[''total_count'' \<mapsto> VInt (int (length (filter (where_clause conds) table)))]]"

text \<open>
  The ORDER BY of the data query: \<^verbatim>\<open>CASE WHEN needs_pricing THEN 0 ELSE 1 END\<close>, then
  \<^verbatim>\<open>pricing_urgency DESC\<close>, \<^verbatim>\<open>property\<close>, \<^verbatim>\<open>unit_id\<close>. NULL is the least value (first
  in ascending, last in descending order), as \<open>None\<close> is among options.
\<close>

definition pricing_rank :: "row \<Rightarrow> nat" where
  "pricing_rank r = (if is_true_col r ''needs_pricing'' then 0 else 1)"

definition units_order :: "row \<Rightarrow> row \<Rightarrow> bool" where
  "units_order a b =
     (pricing_rank a < pricing_rank b \<or>
      (pricing_rank a = pricing_rank b \<and>
       (str_col b ''pricing_urgency'' < str_col a ''pricing_urgency'' \<or>
        (str_col a ''pricing_urgency'' = str_col b ''pricing_urgency'' \<and>
         (str_col a ''property'' < str_col b ''property'' \<or>
          (str_col a ''property'' = str_col b ''property'' \<and>
           str_col a ''unit_id'' \<le> str_col b ''unit_id''))))))"

definition unit_columns :: "string list" where
  "unit_columns =
     [''unit_id'', ''property'', ''bed'', ''bath'', ''sqft'', ''status'', ''advertised_rent'',
      ''market_rent'', ''rent_per_sqft'', ''move_out_date'', ''lease_end_date'',
      ''days_to_lease_end'', ''needs_pricing'', ''rent_premium_pct'', ''pricing_urgency'',
      ''unit_type'', ''size_category'', ''annual_revenue_potential'', ''has_complete_data'']"

definition select_columns :: "string list \<Rightarrow> row \<Rightarrow> row" where
  "select_columns cols r = (\<lambda>k. if k \<in> set cols then r k else None)"

text \<open>\<^verbatim>\<open>SELECT ... WHERE {where_clause} ORDER BY ... LIMIT {page_size} OFFSET {offset}\<close>,
  for a limit and an offset that are not negative (the engine rejects the others).\<close>

definition matching_units :: "frame \<Rightarrow> cond list \<Rightarrow> frame" where
  "matching_units table conds =
     map (select_columns unit_columns) (sort_by units_order (filter (where_clause conds) table))"

definition data_rows :: "frame \<Rightarrow> cond list \<Rightarrow> int \<Rightarrow> int \<Rightarrow> frame" where
  "data_rows table conds limit offset = take (nat limit) (drop (nat offset) (matching_units table conds))"

text \<open>An engine that answers the two queries over the table \<open>table\<close>, whatever its state:
  the underlying data are stable.\<close>

definition answers_listing :: "('e, 'w) client \<Rightarrow> string \<Rightarrow> frame \<Rightarrow> bool" where
  "answers_listing client name table =
     ((\<forall>w conds. fst (client (CountQuery name conds) w) = Inr (count_rows table conds)) \<and>
      (\<forall>w conds limit offset. 0 \<le> limit \<and> 0 \<le> offset \<longrightarrow>
         fst (client (DataQuery name conds limit offset) w)
           = Inr (data_rows table conds limit offset)))"

text \<open>Calling the listing for the pages \<open>1, ..., n\<close> one after the other, and the units of
  all the pages in that order.\<close>

definition fetch_pages ::
  "settings \<Rightarrow> service \<Rightarrow> ('e, 'w) client \<Rightarrow> nat \<Rightarrow> int \<Rightarrow> string option \<Rightarrow> string option \<Rightarrow> bool
     \<Rightarrow> ((frame \<times> val) list, 'e, 'w) prog" where
  "fetch_pages cfg self client n page_size status_filter property_filter needs_pricing_only =
     map_p (\<lambda>page. get_units cfg self client page page_size status_filter property_filter
                     needs_pricing_only)
       (map int [1..<Suc n])"

subsection \<open>The two enrichment queries (lines 618-628 and 697-708)\<close>

text \<open>
  \<^verbatim>\<open>market_query\<close> has the WHERE clause \<^verbatim>\<open>Bed = {bed_filter} AND Base_Price > 0 AND Sq_Ft > 0
  AND Base_Price BETWEEN {lo} AND {hi}\<close>; \<^verbatim>\<open>comp_query\<close> has \<^verbatim>\<open>Bed = {bed_text} AND
  Base_Price > 0 AND Sq_Ft > 0\<close>.
\<close>

definition market_where :: "string \<Rightarrow> real \<Rightarrow> real \<Rightarrow> row \<Rightarrow> bool" where
  "market_where label lo hi c =
     (str_col c ''Bed'' = Some label
      \<and> sql_lt (Some 0) (num_col c ''Base_Price'')
      \<and> sql_lt (Some 0) (num_col c ''Sq_Ft'')
      \<and> sql_between (num_col c ''Base_Price'') (Some lo) (Some hi))"

definition comp_where :: "string \<Rightarrow> row \<Rightarrow> bool" where
  "comp_where label c =
     (str_col c ''Bed'' = Some label
      \<and> sql_lt (Some 0) (num_col c ''Base_Price'')
      \<and> sql_lt (Some 0) (num_col c ''Sq_Ft''))"

text \<open>The competitor listings that a query of one of the two kinds aggregates over.\<close>

fun population :: "frame \<Rightarrow> query \<Rightarrow> frame" where
  "population comps (MarketQuery name label lo hi) = filter (market_where label lo hi) comps"
| "population comps (CompQuery name label) = filter (comp_where label) comps"
| "population comps q = []"

text \<open>\<^verbatim>\<open>Base_Price / NULLIF(Sq_Ft, 0)\<close>.\<close>

definition price_per_sqft :: "row \<Rightarrow> real option" where
  "price_per_sqft c = (case (num_col c ''Base_Price'', num_col c ''Sq_Ft'') of
       (Some p, Some a) \<Rightarrow> if a = 0 then None else Some (p / a)
     | _ \<Rightarrow> None)"

text \<open>The one row each of the two queries returns: rounded averages and COUNT(*).\<close>

fun enrichment_rows :: "frame \<Rightarrow> query \<Rightarrow> frame" where
  "enrichment_rows comps (MarketQuery name label lo hi) =
     (let pop = population comps (MarketQuery name label lo hi) in
      [[''avg_market_rent'' \<mapsto> float_cell (rounded (sql_avg (map (\<lambda>c. num_col c ''Base_Price'') pop)) 0),
        ''avg_market_rent_per_sqft'' \<mapsto> float_cell (rounded (sql_avg (map price_per_sqft pop)) 2),
        ''comp_count'' \<mapsto> VInt (int (length pop))]])"
| "enrichment_rows comps (CompQuery name label) =
     (let pop = population comps (CompQuery name label) in
      [[''avg_market_rent'' \<mapsto> float_cell (rounded (sql_avg (map (\<lambda>c. num_col c ''Base_Price'') pop)) 0),
        ''min_market_rent'' \<mapsto> float_cell (rounded (sql_min (map (\<lambda>c. num_col c ''Base_Price'') pop)) 0),
        ''max_market_rent'' \<mapsto> float_cell (rounded (sql_max (map (\<lambda>c. num_col c ''Base_Price'') pop)) 0),
        ''avg_market_rent_per_sqft'' \<mapsto> float_cell (rounded (sql_avg (map price_per_sqft pop)) 2),
        ''comp_count'' \<mapsto> VInt (int (length pop))]])"
| "enrichment_rows comps q = []"

subsection \<open>The query of the unit-level analysis (lines 790-868)\<close>

text \<open>
  The bedroom count of a unit chooses the label a listing must carry (the CASE of the ON
  clause, lines 820-827 and 1018-1025); with a NULL count every WHEN is unknown and the
  ELSE branch applies.
\<close>

definition bed_label :: "real option \<Rightarrow> string" where
  "bed_label bed =
     (if bed = Some 0 then ''Studio''
      else if bed = Some 1 then ''1 Bed''
      else if bed = Some 2 then ''2 Beds''
      else if bed = Some 3 then ''3 Beds''
      else if sql_le (Some 4) bed then ''4 Beds''
      else ''1 Bed'')"

text \<open>The ON clause of the LEFT JOIN (lines 820-830): the label, a positive price and
  area, and a price within 30 percent of the unit's rent.\<close>

definition unit_match :: "row \<Rightarrow> row \<Rightarrow> bool" where
  "unit_match p c =
     (str_col c ''Bed'' = Some (bed_label (num_col p ''bed''))
      \<and> sql_lt (Some 0) (num_col c ''Base_Price'')
      \<and> sql_lt (Some 0) (num_col c ''Sq_Ft'')
      \<and> sql_between (num_col c ''Base_Price'')
           (sql_times (num_col p ''advertised_rent'') (7 / 10))
           (sql_times (num_col p ''advertised_rent'') (13 / 10)))"

definition analysis_columns :: "string list" where
  "analysis_columns =
     [''unit_id'', ''unit_type'', ''bed'', ''bath'', ''sqft'', ''status'', ''advertised_rent'',
      ''rent_per_sqft'', ''needs_pricing'', ''pricing_urgency'', ''annual_revenue_potential'',
      ''move_out_date'', ''lease_end_date'', ''days_to_lease_end'']"

text \<open>The CTE \<^verbatim>\<open>property_units\<close>: the units of the property.\<close>

definition property_units :: "frame \<Rightarrow> string \<Rightarrow> frame" where
  "property_units table name =
     map (select_columns analysis_columns) (filter (\<lambda>u. str_col u ''property'' = Some name) table)"

definition cell :: "row \<Rightarrow> string \<Rightarrow> val" where
  "cell r k = (case r k of None \<Rightarrow> VNone | Some v \<Rightarrow> v)"

text \<open>
  The CTE \<^verbatim>\<open>unit_competition\<close> groups the joined rows by \<^verbatim>\<open>p.unit_id\<close>, and the final
  SELECT joins it back on \<^verbatim>\<open>p.unit_id = c.unit_id\<close>: the listings that count for a unit
  are those matched by any unit of the property with the same id, and none when the id is
  NULL.
\<close>

definition unit_comps :: "frame \<Rightarrow> frame \<Rightarrow> row \<Rightarrow> frame" where
  "unit_comps units_of_property comps p =
     (if cell p ''unit_id'' = VNone then []
      else concat (map (\<lambda>p'. filter (unit_match p') comps)
                     (filter (\<lambda>p'. cell p' ''unit_id'' = cell p ''unit_id'') units_of_property)))"

text \<open>\<^verbatim>\<open>x LIKE '%Available%'\<close>: the text occurs somewhere in \<open>x\<close>.\<close>

fun starts_with :: "string \<Rightarrow> string \<Rightarrow> bool" where
  "starts_with [] s = True"
| "starts_with (a # as) [] = False"
| "starts_with (a # as) (c # cs) = (a = c \<and> starts_with as cs)"

fun contains :: "string \<Rightarrow> string \<Rightarrow> bool" where
  "contains sub [] = starts_with sub []"
| "contains sub (c # cs) = (starts_with sub (c # cs) \<or> contains sub cs)"

definition available :: "row \<Rightarrow> bool" where
  "available c = (case str_col c ''Availability'' of None \<Rightarrow> False | Some a \<Rightarrow> contains ''Available'' a)"

text \<open>The four derived columns of the final SELECT (lines 841-861), from the average
  price of the unit's listings and the unit's rent.\<close>

definition rent_premium_pct :: "real option \<Rightarrow> real option \<Rightarrow> val" where
  "rent_premium_pct avg rent =
     (if sql_lt (Some 0) avg
      then float_cell (rounded (case (rent, avg) of (Some r, Some a) \<Rightarrow> Some ((r - a) / a * 100)
                                                     | _ \<Rightarrow> None) 1)
      else VNone)"

definition potential_rent_increase :: "real option \<Rightarrow> real option \<Rightarrow> val" where
  "potential_rent_increase avg rent =
     (if sql_lt rent avg then VFloat (sql_round (the avg - the rent) 0) else VFloat 0)"

definition annual_opportunity :: "real option \<Rightarrow> real option \<Rightarrow> val" where
  "annual_opportunity avg rent =
     (if sql_lt rent avg then VFloat (sql_round ((the avg - the rent) * 12) 0) else VFloat 0)"

definition market_position :: "real option \<Rightarrow> real option \<Rightarrow> val" where
  "market_position avg rent =
     (if sql_lt (sql_times avg (105 / 100)) rent then VStr ''ABOVE_MARKET''
      else if sql_lt rent (sql_times avg (95 / 100)) then VStr ''BELOW_MARKET''
      else if avg \<noteq> None then VStr ''AT_MARKET''
      else VStr ''NO_DATA'')"

text \<open>The row of the final SELECT for a unit \<open>p\<close> of the property.\<close>

definition analysis_row :: "frame \<Rightarrow> frame \<Rightarrow> row \<Rightarrow> row" where
  "analysis_row units_of_property comps p =
     (let matched = unit_comps units_of_property comps p;
          prices = map (\<lambda>c. num_col c ''Base_Price'') matched;
          avg = sql_avg prices;
          rent = num_col p ''advertised_rent''
      in p ++ [''comparable_count'' \<mapsto> VInt (int (length (filter (\<lambda>c. cell c ''Property'' \<noteq> VNone) matched))),
               ''avg_comp_rent'' \<mapsto> float_cell avg,
               ''min_comp_rent'' \<mapsto> float_cell (sql_min prices),
               ''max_comp_rent'' \<mapsto> float_cell (sql_max prices),
               ''avg_similarity_score'' \<mapsto> VFloat (85 / 100),
               ''available_comps'' \<mapsto> VInt (int (length (filter available matched))),
               ''rent_premium_pct'' \<mapsto> rent_premium_pct avg rent,
               ''potential_rent_increase'' \<mapsto> potential_rent_increase avg rent,
               ''annual_opportunity'' \<mapsto> annual_opportunity avg rent,
               ''market_position'' \<mapsto> market_position avg rent])"

text \<open>ORDER BY \<^verbatim>\<open>CASE WHEN p.needs_pricing THEN 0 ELSE 1 END\<close>, then
  \<^verbatim>\<open>COALESCE(c.avg_comp_rent, 0) - p.advertised_rent DESC\<close>, then \<^verbatim>\<open>p.unit_id\<close>.\<close>

definition rent_gap :: "row \<Rightarrow> real option" where
  "rent_gap r = (case num_col r ''advertised_rent'' of
       None \<Rightarrow> None
     | Some rent \<Rightarrow> Some ((case num_col r ''avg_comp_rent'' of None \<Rightarrow> 0 | Some a \<Rightarrow> a) - rent))"

definition analysis_order :: "row \<Rightarrow> row \<Rightarrow> bool" where
  "analysis_order a b =
     (pricing_rank a < pricing_rank b \<or>
      (pricing_rank a = pricing_rank b \<and>
       (rent_gap b < rent_gap a \<or>
        (rent_gap a = rent_gap b \<and> str_col a ''unit_id'' \<le> str_col b ''unit_id''))))"

definition units_rows :: "frame \<Rightarrow> frame \<Rightarrow> string \<Rightarrow> frame" where
  "units_rows table comps name =
     sort_by analysis_order
       (map (analysis_row (property_units table name) comps) (property_units table name))"

subsection \<open>The competitors query of the market trends (lines 985-1046)\<close>

text \<open>The CTE \<^verbatim>\<open>property_units\<close> of this query groups the units of the property by
  bedrooms, bathrooms, area and rent, and counts each group.\<close>

definition unit_shape :: "row \<Rightarrow> val \<times> val \<times> val \<times> val" where
  "unit_shape u = (cell u ''bed'', cell u ''bath'', cell u ''sqft'', cell u ''advertised_rent'')"

definition unit_groups :: "frame \<Rightarrow> string \<Rightarrow> frame" where
  "unit_groups table name =
     (let ours = filter (\<lambda>u. str_col u ''property'' = Some name) table
      in map (\<lambda>(bed, bath, sqft, rent).
                [''bed'' \<mapsto> bed, ''bath'' \<mapsto> bath, ''sqft'' \<mapsto> sqft, ''advertised_rent'' \<mapsto> rent,
                 ''our_unit_count'' \<mapsto> VInt (int (length (filter (\<lambda>u. unit_shape u = (bed, bath, sqft, rent)) ours)))])
             (remdups (map unit_shape ours)))"

text \<open>The ON clause of the INNER JOIN (lines 1018-1028), and the narrower test inside
  the two COUNT(CASE ...) (lines 1001-1004 and 1030-1033): price and area within 15
  percent.\<close>

definition competitor_match :: "row \<Rightarrow> row \<Rightarrow> bool" where
  "competitor_match p c =
     (str_col c ''Bed'' = Some (bed_label (num_col p ''bed''))
      \<and> sql_between (num_col c ''Base_Price'')
           (sql_times (num_col p ''advertised_rent'') (7 / 10))
           (sql_times (num_col p ''advertised_rent'') (13 / 10))
      \<and> sql_lt (Some 0) (num_col c ''Base_Price'')
      \<and> sql_lt (Some 0) (num_col c ''Sq_Ft''))"

definition truly_comparable :: "row \<Rightarrow> row \<Rightarrow> bool" where
  "truly_comparable p c =
     (sql_between (num_col c ''Base_Price'')
        (sql_times (num_col p ''advertised_rent'') (85 / 100))
        (sql_times (num_col p ''advertised_rent'') (115 / 100))
      \<and> sql_between (num_col c ''Sq_Ft'')
        (sql_times (num_col p ''sqft'') (85 / 100))
        (sql_times (num_col p ''sqft'') (115 / 100)))"

text \<open>The joined pairs (listing, unit group), and those of one competing property.\<close>

definition joined_pairs :: "frame \<Rightarrow> frame \<Rightarrow> string \<Rightarrow> (row \<times> row) list" where
  "joined_pairs table comps name =
     concat (map (\<lambda>c. map (\<lambda>p. (c, p)) (filter (\<lambda>p. competitor_match p c) (unit_groups table name)))
               comps)"

definition pairs_of :: "frame \<Rightarrow> frame \<Rightarrow> string \<Rightarrow> val \<Rightarrow> (row \<times> row) list" where
  "pairs_of table comps name competitor =
     filter (\<lambda>(c, p). cell c ''Property'' = competitor) (joined_pairs table comps name)"

definition competing_properties :: "frame \<Rightarrow> frame \<Rightarrow> string \<Rightarrow> val list" where
  "competing_properties table comps name =
     remdups (map (\<lambda>(c, p). cell c ''Property'') (joined_pairs table comps name))"

definition truly_comparable_units :: "frame \<Rightarrow> frame \<Rightarrow> string \<Rightarrow> val \<Rightarrow> nat" where
  "truly_comparable_units table comps name competitor =
     length (filter (\<lambda>(c, p). truly_comparable p c) (pairs_of table comps name competitor))"

text \<open>The similarity of a pair (lines 1011-1014). GREATEST of a NULL is NULL; for a
  joined pair the listing's price and area are positive, so no divisor is zero.\<close>

definition similarity :: "row \<times> row \<Rightarrow> real option" where
  "similarity cp = (case cp of (c, p) \<Rightarrow>
     (case (num_col c ''Base_Price'', num_col p ''advertised_rent'', num_col c ''Sq_Ft'', num_col p ''sqft'') of
        (Some price, Some rent, Some area, Some sqft) \<Rightarrow>
          if max price rent = 0 \<or> max area sqft = 0 then None
          else Some ((1 - \<bar>price - rent\<bar> / max price rent) * (6 / 10)
                     + (1 - \<bar>area - sqft\<bar> / max area sqft) * (4 / 10))
      | _ \<Rightarrow> None))"

definition int_col :: "row \<Rightarrow> string \<Rightarrow> int" where
  "int_col r k = (case r k of Some (VInt i) \<Rightarrow> i | _ \<Rightarrow> 0)"

text \<open>One row of \<^verbatim>\<open>competitor_matches\<close>, with the score it is ordered by.\<close>

definition competitor_row :: "frame \<Rightarrow> frame \<Rightarrow> string \<Rightarrow> val \<Rightarrow> row" where
  "competitor_row table comps name competitor =
     (let pairs = pairs_of table comps name competitor in
      [''competitor_property'' \<mapsto> competitor,
       ''our_units_compared'' \<mapsto> VInt (sum_list (map (\<lambda>(c, p). int_col p ''our_unit_count'') pairs)),
       ''their_comparable_units'' \<mapsto> VInt (int (truly_comparable_units table comps name competitor)),
       ''their_avg_rent'' \<mapsto>
          float_cell (rounded (sql_avg (map (\<lambda>(c, p). num_col c ''Base_Price'') pairs)) 0),
       ''their_avg_rent_per_sqft'' \<mapsto>
          float_cell (rounded (sql_avg (map (\<lambda>(c, p). price_per_sqft c) pairs)) 2),
       ''avg_similarity_score'' \<mapsto>
          float_cell (rounded (map_option (\<lambda>x. max (1 / 10) (min 1 x)) (sql_avg (map similarity pairs))) 2),
       ''their_available_units'' \<mapsto> VInt (int (length (filter (\<lambda>(c, p). available c) pairs))),
       ''calculated_similarity_score'' \<mapsto> float_cell (sql_avg (map similarity pairs))])"

text \<open>ORDER BY \<^verbatim>\<open>truly_comparable_units DESC, calculated_similarity_score DESC\<close>.\<close>

definition competitor_order :: "row \<Rightarrow> row \<Rightarrow> bool" where
  "competitor_order a b =
     (int_col b ''their_comparable_units'' < int_col a ''their_comparable_units'' \<or>
      (int_col a ''their_comparable_units'' = int_col b ''their_comparable_units'' \<and>
       num_col b ''calculated_similarity_score'' \<le> num_col a ''calculated_similarity_score''))"

definition competitor_columns :: "string list" where
  "competitor_columns =
     [''competitor_property'', ''our_units_compared'', ''their_comparable_units'', ''their_avg_rent'',
      ''their_avg_rent_per_sqft'', ''avg_similarity_score'', ''their_available_units'']"

text \<open>The result: the competing properties with at least three truly comparable pairs
  (HAVING), ordered, the first ten, and the seven columns of the final SELECT.\<close>

definition competitors_rows :: "frame \<Rightarrow> frame \<Rightarrow> string \<Rightarrow> frame" where
  "competitors_rows table comps name =
     map (select_columns competitor_columns)
       (take 10 (sort_by competitor_order
          (map (competitor_row table comps name)
             (filter (\<lambda>competitor. 3 \<le> truly_comparable_units table comps name competitor)
                (competing_properties table comps name)))))"

section \<open>Predicates of the statements\<close>



section \<open>Example data\<close>

definition cfg_example :: settings where
  "cfg_example = \<lparr> gcp_project_id = ''proj'', bigquery_dataset_staging = ''staging'',
                   bigquery_dataset_mart = ''mart'' \<rparr>"

text \<open>An engine that raises on every query, and counts the calls.\<close>

definition failing_client :: "(unit, nat) client" where
  "failing_client q w = (Inl (), Suc w)"


text \<open>A row of the overview query: three one-bedroom units at 1200.\<close>

definition overview_row_example :: row where
  "overview_row_example =
     [''property'' \<mapsto> VStr ''Maple Ridge'', ''unit_type'' \<mapsto> VStr ''1BR'', ''unit_count'' \<mapsto> VInt 3,
      ''avg_our_rent'' \<mapsto> VFloat 1200, ''avg_our_rent_per_sqft'' \<mapsto> VFloat 2,
      ''vacant_units'' \<mapsto> VInt 1, ''units_needing_pricing'' \<mapsto> VInt 1,
      ''revenue_potential'' \<mapsto> VFloat 43200]"


text \<open>A row of the rent comparison query: the same three units, by bedroom count.\<close>

definition comparison_row_example :: row where
  "comparison_row_example =
     [''bed'' \<mapsto> VInt 1, ''unit_count'' \<mapsto> VInt 3, ''avg_our_rent'' \<mapsto> VFloat 1200,
      ''min_our_rent'' \<mapsto> VFloat 1200, ''max_our_rent'' \<mapsto> VFloat 1200,
      ''avg_our_rent_per_sqft'' \<mapsto> VFloat 2]"

text \<open>Rows of the competition table and of the unit table.\<close>

definition listing :: "string \<Rightarrow> string \<Rightarrow> real \<Rightarrow> real \<Rightarrow> string \<Rightarrow> row" where
  "listing prop bed area price availability =
     [''Property'' \<mapsto> VStr prop, ''Bed'' \<mapsto> VStr bed, ''Sq_Ft'' \<mapsto> VFloat area,
      ''Base_Price'' \<mapsto> VFloat price, ''Availability'' \<mapsto> VStr availability]"

definition unit_row :: "string \<Rightarrow> string \<Rightarrow> int \<Rightarrow> real \<Rightarrow> string \<Rightarrow> real \<Rightarrow> bool \<Rightarrow> string \<Rightarrow> row" where
  "unit_row uid prop beds area stat rent pricing urgency =
     [''unit_id'' \<mapsto> VStr uid, ''property'' \<mapsto> VStr prop, ''bed'' \<mapsto> VInt beds,
      ''bath'' \<mapsto> VFloat 1, ''sqft'' \<mapsto> VFloat area, ''status'' \<mapsto> VStr stat,
      ''advertised_rent'' \<mapsto> VFloat rent, ''needs_pricing'' \<mapsto> VBool pricing,
      ''pricing_urgency'' \<mapsto> VStr urgency, ''has_complete_data'' \<mapsto> VBool True]"

text \<open>Three units, two of them at Maple Ridge; two one-bedroom listings, one of them
  far above the rents of Maple Ridge; and a table with one listing a little above 1000.\<close>

definition units_example :: frame where
  "units_example =
     [unit_row ''A1'' ''Maple Ridge'' 1 600 ''OCCUPIED'' 1000 False ''LOW'',
      unit_row ''A2'' ''Maple Ridge'' 1 600 ''VACANT'' 1200 True ''HIGH'',
      unit_row ''B1'' ''Birch Hill'' 2 900 ''OCCUPIED'' 1600 False ''LOW'']"

definition comps_example :: frame where
  "comps_example =
     [listing ''Oak Court'' ''1 Bed'' 600 1260 ''Available Now'',
      listing ''Elm Place'' ''1 Bed'' 650 2000 ''Available Now'']"

definition close_comps_example :: frame where
  "close_comps_example = [listing ''Oak Court'' ''1 Bed'' 600 (10001 / 10) ''Available Now'']"

text \<open>An engine over a unit table and a competition table: it answers the queries whose
  meaning is given above, and every other query with no rows.\<close>

definition warehouse :: "frame \<Rightarrow> frame \<Rightarrow> (unit, nat) client" where
  "warehouse table comps q w =
     (case q of
        CountQuery name conds \<Rightarrow> Inr (count_rows table conds)
      | DataQuery name conds limit offset \<Rightarrow>
          if 0 \<le> limit \<and> 0 \<le> offset then Inr (data_rows table conds limit offset) else Inl ()
      | MarketQuery name label lo hi \<Rightarrow> Inr (enrichment_rows comps q)
      | CompQuery name label \<Rightarrow> Inr (enrichment_rows comps q)
      | UnitsQuery name name' property \<Rightarrow> Inr (units_rows table comps property)
      | CompetitorsQuery name name' property \<Rightarrow> Inr (competitors_rows table comps property)
      | _ \<Rightarrow> Inr [],
      Suc w)"

section \<open>Properties\<close>

lemmas prog_defs = return_p_def raise_p_def bind_p_def try_except_def logger_def run_query_def

lemmas sql_defs = str_col_def num_col_def is_true_col_def sql_lt_def sql_le_def sql_between_def
  sql_times_def cell_def

subsection \<open>Sorting keeps the rows\<close>

lemma mset_insert_by: "mset (insert_by le x xs) = add_mset x (mset xs)"
  by (induction xs) simp_all

lemma mset_sort_by: "mset (sort_by le xs) = mset xs"
  by (induction xs) (simp_all add: mset_insert_by)

lemma length_sort_by: "length (sort_by le xs) = length xs"
  using mset_sort_by [of le xs] by (metis size_mset)

lemma set_sort_by: "set (sort_by le xs) = set xs"
  using mset_sort_by [of le xs] by (metis set_mset_mset)

subsection \<open>Table settings\<close>

text \<open>
  Claim C2, as amended. After \<^verbatim>\<open>set_table_settings\<close> with a rentroll table and a
  competition table that are non-empty strings, the two accessors return exactly the
  values passed, and the project id is the one passed; the update itself never raises. On
  a service that was never updated the accessors return the fallback names, which start
  with the configured project id.
\<close>

theorem settings_override_nonempty:
  "(rt \<noteq> [] \<and> ct \<noteq> [] \<longrightarrow>
      fst (set_table_settings self
             \<lparr> rentroll_table = Some rt, competition_table = Some ct, project_id = p \<rparr> s)
        = Inr (assign_settings self
             \<lparr> rentroll_table = Some rt, competition_table = Some ct, project_id = p \<rparr>)
      \<and> get_rentroll_table cfg (assign_settings self
             \<lparr> rentroll_table = Some rt, competition_table = Some ct, project_id = p \<rparr>) = rt
      \<and> get_competition_table cfg (assign_settings self
             \<lparr> rentroll_table = Some rt, competition_table = Some ct, project_id = p \<rparr>) = ct
      \<and> priv_project_id (assign_settings self
             \<lparr> rentroll_table = Some rt, competition_table = Some ct, project_id = p \<rparr>) = p)
   \<and> get_rentroll_table cfg (init cfg) = gcp_project_id cfg @ ''.rentroll.Update_7_8_native''
   \<and> get_competition_table cfg (init cfg) = gcp_project_id cfg @ ''.rentroll.Competition''"
  by (cases s) (simp add: set_table_settings_def assign_settings_def get_rentroll_table_def
      get_competition_table_def truthy_opt_def init_def prog_defs Let_def)

theorem settings_override_nonempty_witness:
  "get_rentroll_table cfg_example (assign_settings (init cfg_example)
       \<lparr> rentroll_table = Some ''p2.data.rentroll'', competition_table = Some ''p2.data.comps'',
         project_id = ''p2'' \<rparr>) = ''p2.data.rentroll''
   \<and> get_competition_table cfg_example (assign_settings (init cfg_example)
       \<lparr> rentroll_table = Some ''p2.data.rentroll'', competition_table = Some ''p2.data.comps'',
         project_id = ''p2'' \<rparr>) = ''p2.data.comps''
   \<and> get_rentroll_table cfg_example (init cfg_example) = ''proj.rentroll.Update_7_8_native''
   \<and> get_competition_table cfg_example (init cfg_example) = ''proj.rentroll.Competition''"
  using settings_override_nonempty [of "''p2.data.rentroll''" "''p2.data.comps''"
      "init cfg_example" "''p2''" "(0::nat, [] :: unit log_entry list)" cfg_example]
  by (simp add: cfg_example_def)

text \<open>The claim as it was stated fails for an empty table name: the update stores it, and
  the accessor returns the fallback name, not the empty string that was passed.\<close>

theorem settings_override_empty_counterexample:
  "fst (set_table_settings (init cfg_example)
          \<lparr> rentroll_table = Some [], competition_table = Some ''p2.data.comps'',
            project_id = ''p2'' \<rparr> (0::nat, [] :: unit log_entry list))
     = Inr (assign_settings (init cfg_example)
          \<lparr> rentroll_table = Some [], competition_table = Some ''p2.data.comps'',
            project_id = ''p2'' \<rparr>)
   \<and> get_rentroll_table cfg_example (assign_settings (init cfg_example)
          \<lparr> rentroll_table = Some [], competition_table = Some ''p2.data.comps'',
            project_id = ''p2'' \<rparr>) = ''proj.rentroll.Update_7_8_native''
   \<and> get_rentroll_table cfg_example (assign_settings (init cfg_example)
          \<lparr> rentroll_table = Some [], competition_table = Some ''p2.data.comps'',
            project_id = ''p2'' \<rparr>) \<noteq> []"
  by (simp add: set_table_settings_def assign_settings_def get_rentroll_table_def
      truthy_opt_def init_def prog_defs Let_def cfg_example_def)

text \<open>
  Claim C8. When \<^verbatim>\<open>set_table_settings\<close> is called with a rentroll table (or a competition
  table) that is \<^verbatim>\<open>None\<close> or the empty string, the accessor of that table returns the
  fallback name afterwards, the same name it returns on a service that was never updated:
  the accessor tests the stored field for truth.
\<close>

theorem empty_override_falls_back:
  "fst (set_table_settings self ts s) = Inr (assign_settings self ts)
   \<and> (rentroll_table ts = None \<or> rentroll_table ts = Some [] \<longrightarrow>
        get_rentroll_table cfg (assign_settings self ts)
          = gcp_project_id cfg @ ''.rentroll.Update_7_8_native''
        \<and> get_rentroll_table cfg (assign_settings self ts) = get_rentroll_table cfg (init cfg))
   \<and> (competition_table ts = None \<or> competition_table ts = Some [] \<longrightarrow>
        get_competition_table cfg (assign_settings self ts)
          = gcp_project_id cfg @ ''.rentroll.Competition''
        \<and> get_competition_table cfg (assign_settings self ts)
            = get_competition_table cfg (init cfg))"
  by (cases s) (auto simp add: set_table_settings_def assign_settings_def get_rentroll_table_def
      get_competition_table_def truthy_opt_def init_def prog_defs Let_def)

theorem empty_override_falls_back_witness:
  "get_rentroll_table cfg_example (assign_settings (init cfg_example)
       \<lparr> rentroll_table = Some [], competition_table = None, project_id = ''p2'' \<rparr>)
     = ''proj.rentroll.Update_7_8_native''
   \<and> get_competition_table cfg_example (assign_settings (init cfg_example)
       \<lparr> rentroll_table = Some [], competition_table = None, project_id = ''p2'' \<rparr>)
     = ''proj.rentroll.Competition''"
  using empty_override_falls_back [of "init cfg_example"
      "\<lparr> rentroll_table = Some [], competition_table = None, project_id = ''p2'' \<rparr>"
      "(0::nat, [] :: unit log_entry list)" cfg_example]
  by (simp add: cfg_example_def)

subsection \<open>Comparables lookup\<close>

text \<open>
  Claim C9. \<^verbatim>\<open>get_unit_comparables\<close> never raises. When its query raises, it logs the error
  and returns an empty data frame, which is also what it returns when the query succeeds
  with no rows.
\<close>

theorem get_unit_comparables_never_raises:
  "(\<exists>df. fst (get_unit_comparables cfg self client unit_id s) = Inr df)
   \<and> (client (ComparablesQuery (unit_competitor_pairs cfg self) unit_id) (fst s) = (Inl e, w') \<longrightarrow>
        get_unit_comparables cfg self client unit_id s
          = (Inr [], (w', snd s @ [(ERROR, [T ''Error fetching comparables for unit '', T unit_id,
                                            T '': '', E (Engine e)])])))
   \<and> (client (ComparablesQuery (unit_competitor_pairs cfg self) unit_id) (fst s) = (Inr [], w') \<longrightarrow>
        fst (get_unit_comparables cfg self client unit_id s) = Inr [])"
  by (cases s) (auto simp add: get_unit_comparables_def prog_defs split: prod.splits sum.splits)

theorem get_unit_comparables_never_raises_witness:
  "get_unit_comparables cfg_example (init cfg_example) failing_client ''U1'' (0, [])
     = (Inr [], (1, [(ERROR, [T ''Error fetching comparables for unit '', T ''U1'', T '': '',
                              E (Engine ())])]))"
  using get_unit_comparables_never_raises [of cfg_example "init cfg_example" failing_client
      "''U1''" "(0, [])" "()" 1]
  by (simp add: failing_client_def)

subsection \<open>Failures of the primary queries\<close>

text \<open>One lemma for each primary query: the method run up to the query that raises.\<close>

lemma get_units_count_raises:
  assumes "client (count_query cfg self sf pf np) w = (Inl x, w')"
  shows "get_units cfg self client page page_size sf pf np (w, lg)
           = (Inl (Engine x),
              (w', lg
               @ [(ERROR, [T ''Error fetching units: '', E (Engine x)])]))"
  using assms by (simp add: get_units_def get_units_body_def coroutine_def next_iter_def
      getattr_def prog_defs)

lemma get_units_data_raises:
  assumes "client (count_query cfg self sf pf np) w = (Inr (r # rs), w1)"
      and "r ''total_count'' = Some tc"
      and "client (data_query cfg self page page_size sf pf np) w1 = (Inl x, w2)"
  shows "get_units cfg self client page page_size sf pf np (w, lg)
           = (Inl (Engine x),
              (w2, lg
               @ [(ERROR, [T ''Error fetching units: '', E (Engine x)])]))"
  using assms by (simp add: get_units_def get_units_body_def coroutine_def next_iter_def
      getattr_def prog_defs)

lemma get_unit_by_id_raises:
  assumes "client (UnitByIdQuery (unit_snapshot cfg self) unit_id) w = (Inl x, w')"
  shows "get_unit_by_id cfg self client unit_id (w, lg)
           = (Inl (Engine x),
              (w', lg
               @ [(ERROR, [T ''Error fetching unit '', T unit_id, T '': '', E (Engine x)])]))"
  using assms by (simp add: get_unit_by_id_def get_unit_by_id_body_def prog_defs)

lemma get_vacant_units_raises:
  assumes "client (VacantUnitsQuery (unit_snapshot cfg self) (limit_clause limit)) w
             = (Inl x, w')"
  shows "get_vacant_units cfg self client limit (w, lg)
           = (Inl (Engine x),
              (w', lg
               @ [(ERROR, [T ''Error fetching vacant units: '', E (Engine x)])]))"
  using assms by (simp add: get_vacant_units_def get_vacant_units_body_def prog_defs)

lemma portfolio_first_raises:
  assumes "client (PortfolioQuery (unit_snapshot cfg self)) w = (Inl x, w')"
  shows "get_portfolio_analytics cfg self client (w, lg)
           = (Inl (Engine x),
              (w', lg
               @ [(ERROR, [T ''Error fetching portfolio analytics: '', E (Engine x)])]))"
  using assms by (simp add: get_portfolio_analytics_def get_portfolio_analytics_body_def
      first_row_def prog_defs)

lemma portfolio_urgency_raises:
  assumes "client (PortfolioQuery (unit_snapshot cfg self)) w = (Inr (r # rs), w1)"
      and "client (UrgencyQuery (unit_snapshot cfg self)) w1 = (Inl x, w2)"
  shows "get_portfolio_analytics cfg self client (w, lg)
           = (Inl (Engine x),
              (w2, lg
               @ [(ERROR, [T ''Error fetching portfolio analytics: '', E (Engine x)])]))"
  using assms by (simp add: get_portfolio_analytics_def get_portfolio_analytics_body_def
      first_row_def prog_defs)

lemma portfolio_property_raises:
  assumes "client (PortfolioQuery (unit_snapshot cfg self)) w = (Inr (r # rs), w1)"
      and "client (UrgencyQuery (unit_snapshot cfg self)) w1 = (Inr df, w2)"
      and "client (PropertyQuery (unit_snapshot cfg self)) w2 = (Inl x, w3)"
  shows "get_portfolio_analytics cfg self client (w, lg)
           = (Inl (Engine x),
              (w3, lg
               @ [(ERROR, [T ''Error fetching portfolio analytics: '', E (Engine x)])]))"
  using assms by (simp add: get_portfolio_analytics_def get_portfolio_analytics_body_def
      first_row_def prog_defs)

lemma market_position_first_raises:
  assumes "client (MarketSummaryQuery (unit_snapshot cfg self) (unit_competitor_pairs cfg self)) w
             = (Inl x, w')"
  shows "get_market_position_analytics cfg self client (w, lg)
           = (Inl (Engine x),
              (w', lg
               @ [(ERROR, [T ''Error fetching market position analytics: '', E (Engine x)])]))"
  using assms by (simp add: get_market_position_analytics_def
      get_market_position_analytics_body_def prog_defs)

lemma market_position_unit_type_raises:
  assumes "client (MarketSummaryQuery (unit_snapshot cfg self) (unit_competitor_pairs cfg self)) w
             = (Inr df, w1)"
      and "client (UnitTypeQuery (unit_snapshot cfg self) (unit_competitor_pairs cfg self)) w1
             = (Inl x, w2)"
  shows "get_market_position_analytics cfg self client (w, lg)
           = (Inl (Engine x),
              (w2, lg
               @ [(ERROR, [T ''Error fetching market position analytics: '', E (Engine x)])]))"
  using assms by (simp add: get_market_position_analytics_def
      get_market_position_analytics_body_def prog_defs)

lemma pricing_first_raises:
  assumes "client (PricingSummaryQuery (unit_snapshot cfg self) (unit_competitor_pairs cfg self)) w
             = (Inl x, w')"
  shows "get_pricing_opportunities cfg self client (w, lg)
           = (Inl (Engine x),
              (w', lg
               @ [(ERROR, [T ''Error fetching pricing opportunities: '', E (Engine x)])]))"
  using assms by (simp add: get_pricing_opportunities_def get_pricing_opportunities_body_def
      first_row_def prog_defs)

lemma pricing_top_raises:
  assumes "client (PricingSummaryQuery (unit_snapshot cfg self) (unit_competitor_pairs cfg self)) w
             = (Inr (r # rs), w1)"
      and "client (TopQuery (unit_snapshot cfg self) (unit_competitor_pairs cfg self)) w1
             = (Inl x, w2)"
  shows "get_pricing_opportunities cfg self client (w, lg)
           = (Inl (Engine x),
              (w2, lg
               @ [(ERROR, [T ''Error fetching pricing opportunities: '', E (Engine x)])]))"
  using assms by (simp add: get_pricing_opportunities_def get_pricing_opportunities_body_def
      first_row_def prog_defs)

lemma vs_competition_overview_raises:
  assumes "client (OverviewQuery (unit_snapshot cfg self) name) w = (Inl x, w')"
  shows "get_property_vs_competition_analysis cfg self client name (w, lg)
           = (Inl (Engine x),
              (w', lg
               @ [(ERROR, [T ''Error fetching property vs competition analysis for '', T name,
                            T '': '', E (Engine x)])]))"
  using assms by (simp add: get_property_vs_competition_analysis_def
      get_property_vs_competition_analysis_body_def prog_defs)

lemma vs_competition_rent_raises:
  assumes "client (OverviewQuery (unit_snapshot cfg self) name) w = (Inr ov, w1)"
      and "map_p (enrich_overview_row cfg self client) ov (w1, lg @ [(INFO, [T
          ''Overview query returned '', N (int (length ov)), T '' rows for property: '', T
          name])])
             = (Inr od, (w2, lg2))"
      and "client (RentComparisonQuery (unit_snapshot cfg self) name) w2 = (Inl x, w3)"
  shows "get_property_vs_competition_analysis cfg self client name (w, lg)
           = (Inl (Engine x),
              (w3, (lg2 @ [(INFO, [T ''Overview data created: '', N (int (length od)), T
                  '' unit types''])])
               @ [(ERROR, [T ''Error fetching property vs competition analysis for '', T name,
                            T '': '', E (Engine x)])]))"
  using assms by (simp add: get_property_vs_competition_analysis_def
      get_property_vs_competition_analysis_body_def prog_defs)

lemma vs_competition_performance_raises:
  assumes "client (OverviewQuery (unit_snapshot cfg self) name) w = (Inr ov, w1)"
      and "map_p (enrich_overview_row cfg self client) ov (w1, lg @ [(INFO, [T
          ''Overview query returned '', N (int (length ov)), T '' rows for property: '', T
          name])])
             = (Inr od, (w2, lg2))"
      and "client (RentComparisonQuery (unit_snapshot cfg self) name) w2 = (Inr rc, w3)"
      and "map_p (enrich_comparison_row cfg self client) rc (w3, lg2 @ [(INFO, [T
          ''Overview data created: '', N (int (length od)), T '' unit types''])])
             = (Inr rd, (w4, lg4))"
      and "client (PerformanceQuery (unit_snapshot cfg self) name) w4 = (Inl x, w5)"
  shows "get_property_vs_competition_analysis cfg self client name (w, lg)
           = (Inl (Engine x),
              (w5, lg4
               @ [(ERROR, [T ''Error fetching property vs competition analysis for '', T name,
                            T '': '', E (Engine x)])]))"
  using assms by (simp add: get_property_vs_competition_analysis_def
      get_property_vs_competition_analysis_body_def prog_defs)

lemma unit_analysis_raises:
  assumes "client (UnitsQuery (unit_snapshot cfg self) (get_competition_table cfg self) name) w
             = (Inl x, w')"
  shows "get_property_unit_analysis cfg self client name (w, lg)
           = (Inl (Engine x),
              (w', lg
               @ [(ERROR, [T ''Error fetching property unit analysis for '', T name,
                            T '': '', E (Engine x)])]))"
  using assms by (simp add: get_property_unit_analysis_def get_property_unit_analysis_body_def
      prog_defs)

lemma market_trends_positioning_raises:
  assumes "client (PositioningQuery (unit_snapshot cfg self) (get_competition_table cfg self) name) w
             = (Inl x, w')"
  shows "get_property_market_trends cfg self client name (w, lg)
           = (Inl (Engine x),
              (w', lg
               @ [(ERROR, [T ''Error fetching property market trends for '', T name,
                            T '': '', E (Engine x)])]))"
  using assms by (simp add: get_property_market_trends_def get_property_market_trends_body_def
      prog_defs)

lemma market_trends_distribution_raises:
  assumes "client (PositioningQuery (unit_snapshot cfg self) (get_competition_table cfg self) name) w
             = (Inr df, w1)"
      and "top_competitors_data cfg self client name (w1, lg) = (Inr cd, (w2, lg2))"
      and "client (DistributionQuery (unit_snapshot cfg self) name) w2 = (Inl x, w3)"
  shows "get_property_market_trends cfg self client name (w, lg)
           = (Inl (Engine x),
              (w3, lg2
               @ [(ERROR, [T ''Error fetching property market trends for '', T name,
                            T '': '', E (Engine x)])]))"
  using assms by (simp add: get_property_market_trends_def get_property_market_trends_body_def
      prog_defs)

lemma test_filter_first_raises:
  assumes "client (TestFilterQuery (unit_snapshot cfg self) name) w = (Inl x, w')"
  shows "test_property_filter cfg self client name (w, lg)
           = (Inl (Engine x),
              (w', lg
               @ [(ERROR, [T ''Error in test property filter: '', E (Engine x)])]))"
  using assms by (simp add: test_property_filter_def test_property_filter_body_def prog_defs)

lemma test_filter_all_raises:
  assumes "client (TestFilterQuery (unit_snapshot cfg self) name) w = (Inr df, w1)"
      and "client (AllPropertiesQuery (unit_snapshot cfg self)) w1 = (Inl x, w2)"
  shows "test_property_filter cfg self client name (w, lg)
           = (Inl (Engine x),
              (w2, lg
               @ [(ERROR, [T ''Error in test property filter: '', E (Engine x)])]))"
  using assms by (simp add: test_property_filter_def test_property_filter_body_def prog_defs)

lemma test_competition_sample_raises:
  assumes "run_query client (SchemaQuery (filter (\<lambda>c. c \<noteq> CHR 0x60)
      (get_competition_table cfg self))) (w, lg)
             = (res, (w1, lg1))"
      and "client (SampleQuery (get_competition_table cfg self)) w1 = (Inl x, w2)"
  shows "test_competition_data cfg self client (w, lg)
           = (Inl (Engine x),
              (w2, lg1
               @ [(ERROR, [T ''Error testing competition data: '', E (Engine x)])]))"
  using assms by (cases res) (simp_all add: test_competition_data_def
      test_competition_data_body_def prog_defs split: prod.splits sum.splits)

lemma comparables_swallowed:
  assumes "client (ComparablesQuery (unit_competitor_pairs cfg self) unit_id) w = (Inl x, w')"
  shows "get_unit_comparables cfg self client unit_id (w, lg)
           = (Inr [],
              (w', lg
               @ [(ERROR, [T ''Error fetching comparables for unit '', T unit_id,
                            T '': '', E (Engine x)])]))"
  using assms by (simp add: get_unit_comparables_def prog_defs)

lemma properties_swallowed:
  assumes "client (PropertiesQuery (unit_snapshot cfg self)) w = (Inl x, w')"
  shows "get_properties cfg self client (w, lg)
           = (Inr [],
              (w', lg
               @ [(ERROR, [T ''Error fetching properties: '', E (Engine x)])]))"
  using assms by (simp add: get_properties_def prog_defs)

lemma unit_types_swallowed:
  assumes "client (UnitTypesQuery (unit_snapshot cfg self)) w = (Inl x, w')"
  shows "get_unit_types_summary cfg self client (w, lg)
           = (Inr Map.empty,
              (w', lg
               @ [(ERROR, [T ''Error fetching unit types summary: '', E (Engine x)])]))"
  using assms by (simp add: get_unit_types_summary_def prog_defs)

lemmas primary_raises =
  get_units_count_raises get_units_data_raises get_unit_by_id_raises get_vacant_units_raises
  portfolio_first_raises portfolio_urgency_raises portfolio_property_raises market_position_first_raises
  market_position_unit_type_raises pricing_first_raises pricing_top_raises
      vs_competition_overview_raises
  vs_competition_rent_raises vs_competition_performance_raises unit_analysis_raises
      market_trends_positioning_raises
  market_trends_distribution_raises test_filter_first_raises test_filter_all_raises
      test_competition_sample_raises
  comparables_swallowed properties_swallowed unit_types_swallowed

text \<open>
  Claim C1, as amended. In the paginated listing, the single lookup, the vacancy listing,
  the portfolio, market-position and pricing analytics, the three property reports and the
  two diagnostics, an exception raised by the query engine in a primary query is logged
  with the operation's message and re-raised unchanged; the state is the one the engine
  left. The comparables lookup, the distinct-properties listing and the per-unit-type
  summary log the exception too, but return an empty data frame, an empty list and an
  empty dictionary instead of raising.
\<close>

theorem primary_queries_reraise:
  "(client (count_query cfg self sf pf np) w = (Inl x, w') \<longrightarrow>
      get_units cfg self client page page_size sf pf np (w, lg)
        = (Inl (Engine x), (w', lg @ [(ERROR, [T ''Error fetching units: '', E (Engine x)])])))
   \<and> (client (count_query cfg self sf pf np) w = (Inr (r # rs), w1) \<and> r ''total_count''
       = Some tc \<and>
      client (data_query cfg self page page_size sf pf np) w1 = (Inl x, w2) \<longrightarrow>
      get_units cfg self client page page_size sf pf np (w, lg)
        = (Inl (Engine x), (w2, lg @ [(ERROR, [T ''Error fetching units: '', E (Engine x)])])))
   \<and> (client (UnitByIdQuery (unit_snapshot cfg self) unit_id) w = (Inl x, w') \<longrightarrow>
      get_unit_by_id cfg self client unit_id (w, lg)
        = (Inl (Engine x), (w', lg @ [(ERROR, [T ''Error fetching unit '', T unit_id, T '': '',
                                              E (Engine x)])])))
   \<and> (client (VacantUnitsQuery (unit_snapshot cfg self) (limit_clause limit)) w = (Inl x, w')
       \<longrightarrow>
      get_vacant_units cfg self client limit (w, lg)
        = (Inl (Engine x), (w', lg @ [(ERROR, [T ''Error fetching vacant units: '', E (Engine x)])])))
   \<and> (client (PortfolioQuery (unit_snapshot cfg self)) w = (Inl x, w') \<longrightarrow>
      get_portfolio_analytics cfg self client (w, lg)
        = (Inl (Engine x), (w', lg @ [(ERROR, [T ''Error fetching portfolio analytics: '',
                                              E (Engine x)])])))
   \<and> (client (PortfolioQuery (unit_snapshot cfg self)) w = (Inr (r # rs), w1) \<and>
      client (UrgencyQuery (unit_snapshot cfg self)) w1 = (Inl x, w2) \<longrightarrow>
      get_portfolio_analytics cfg self client (w, lg)
        = (Inl (Engine x), (w2, lg @ [(ERROR, [T ''Error fetching portfolio analytics: '',
                                              E (Engine x)])])))
   \<and> (client (PortfolioQuery (unit_snapshot cfg self)) w = (Inr (r # rs), w1) \<and>
      client (UrgencyQuery (unit_snapshot cfg self)) w1 = (Inr df, w2) \<and>
      client (PropertyQuery (unit_snapshot cfg self)) w2 = (Inl x, w3) \<longrightarrow>
      get_portfolio_analytics cfg self client (w, lg)
        = (Inl (Engine x), (w3, lg @ [(ERROR, [T ''Error fetching portfolio analytics: '',
                                              E (Engine x)])])))
   \<and> (client (MarketSummaryQuery (unit_snapshot cfg self) (unit_competitor_pairs cfg self)) w
        = (Inl x, w') \<longrightarrow>
      get_market_position_analytics cfg self client (w, lg)
        = (Inl (Engine x), (w', lg @ [(ERROR, [T ''Error fetching market position analytics: '',
                                              E (Engine x)])])))
   \<and> (client (MarketSummaryQuery (unit_snapshot cfg self) (unit_competitor_pairs cfg self)) w
        = (Inr df, w1) \<and>
      client (UnitTypeQuery (unit_snapshot cfg self) (unit_competitor_pairs cfg self)) w1
        = (Inl x, w2) \<longrightarrow>
      get_market_position_analytics cfg self client (w, lg)
        = (Inl (Engine x), (w2, lg @ [(ERROR, [T ''Error fetching market position analytics: '',
                                              E (Engine x)])])))
   \<and> (client (PricingSummaryQuery (unit_snapshot cfg self) (unit_competitor_pairs cfg self)) w
        = (Inl x, w') \<longrightarrow>
      get_pricing_opportunities cfg self client (w, lg)
        = (Inl (Engine x), (w', lg @ [(ERROR, [T ''Error fetching pricing opportunities: '',
                                              E (Engine x)])])))
   \<and> (client (PricingSummaryQuery (unit_snapshot cfg self) (unit_competitor_pairs cfg self)) w
        = (Inr (r # rs), w1) \<and>
      client (TopQuery (unit_snapshot cfg self) (unit_competitor_pairs cfg self)) w1 = (Inl x, w2)
          \<longrightarrow>
      get_pricing_opportunities cfg self client (w, lg)
        = (Inl (Engine x), (w2, lg @ [(ERROR, [T ''Error fetching pricing opportunities: '',
                                              E (Engine x)])])))
   \<and> (client (OverviewQuery (unit_snapshot cfg self) name) w = (Inl x, w') \<longrightarrow>
      get_property_vs_competition_analysis cfg self client name (w, lg)
        = (Inl (Engine x), (w', lg @ [(ERROR, [T
            ''Error fetching property vs competition analysis for '',
                                              T name, T '': '', E (Engine x)])])))
   \<and> (client (OverviewQuery (unit_snapshot cfg self) name) w = (Inr ov, w1) \<and>
      map_p (enrich_overview_row cfg self client) ov
        (w1, lg @ [(INFO, [T ''Overview query returned '', N (int (length ov)),
                           T '' rows for property: '', T name])]) = (Inr od, (w2, lg2)) \<and>
      client (RentComparisonQuery (unit_snapshot cfg self) name) w2 = (Inl x, w3) \<longrightarrow>
      get_property_vs_competition_analysis cfg self client name (w, lg)
        = (Inl (Engine x),
           (w3, (lg2 @ [(INFO, [T ''Overview data created: '', N (int (length od)),
                                T '' unit types''])])
                @ [(ERROR, [T ''Error fetching property vs competition analysis for '',
                            T name, T '': '', E (Engine x)])])))
   \<and> (client (OverviewQuery (unit_snapshot cfg self) name) w = (Inr ov, w1) \<and>
      map_p (enrich_overview_row cfg self client) ov
        (w1, lg @ [(INFO, [T ''Overview query returned '', N (int (length ov)),
                           T '' rows for property: '', T name])]) = (Inr od, (w2, lg2)) \<and>
      client (RentComparisonQuery (unit_snapshot cfg self) name) w2 = (Inr rc, w3) \<and>
      map_p (enrich_comparison_row cfg self client) rc
        (w3, lg2 @ [(INFO, [T ''Overview data created: '', N (int (length od)),
                            T '' unit types''])]) = (Inr rd, (w4, lg4)) \<and>
      client (PerformanceQuery (unit_snapshot cfg self) name) w4 = (Inl x, w5) \<longrightarrow>
      get_property_vs_competition_analysis cfg self client name (w, lg)
        = (Inl (Engine x),
           (w5, lg4 @ [(ERROR, [T ''Error fetching property vs competition analysis for '',
                                T name, T '': '', E (Engine x)])])))
   \<and> (client (UnitsQuery (unit_snapshot cfg self) (get_competition_table cfg self) name) w
        = (Inl x, w') \<longrightarrow>
      get_property_unit_analysis cfg self client name (w, lg)
        = (Inl (Engine x), (w', lg @ [(ERROR, [T ''Error fetching property unit analysis for '',
                                              T name, T '': '', E (Engine x)])])))
   \<and> (client (PositioningQuery (unit_snapshot cfg self) (get_competition_table cfg self) name) w
        = (Inl x, w') \<longrightarrow>
      get_property_market_trends cfg self client name (w, lg)
        = (Inl (Engine x), (w', lg @ [(ERROR, [T ''Error fetching property market trends for '',
                                              T name, T '': '', E (Engine x)])])))
   \<and> (client (PositioningQuery (unit_snapshot cfg self) (get_competition_table cfg self) name) w
        = (Inr df, w1) \<and>
      top_competitors_data cfg self client name (w1, lg) = (Inr cd, (w2, lg2)) \<and>
      client (DistributionQuery (unit_snapshot cfg self) name) w2 = (Inl x, w3) \<longrightarrow>
      get_property_market_trends cfg self client name (w, lg)
        = (Inl (Engine x), (w3, lg2 @ [(ERROR, [T ''Error fetching property market trends for '',
                                               T name, T '': '', E (Engine x)])])))
   \<and> (client (TestFilterQuery (unit_snapshot cfg self) name) w = (Inl x, w') \<longrightarrow>
      test_property_filter cfg self client name (w, lg)
        = (Inl (Engine x), (w', lg @ [(ERROR, [T ''Error in test property filter: '',
                                              E (Engine x)])])))
   \<and> (client (TestFilterQuery (unit_snapshot cfg self) name) w = (Inr df, w1) \<and>
      client (AllPropertiesQuery (unit_snapshot cfg self)) w1 = (Inl x, w2) \<longrightarrow>
      test_property_filter cfg self client name (w, lg)
        = (Inl (Engine x), (w2, lg @ [(ERROR, [T ''Error in test property filter: '',
                                              E (Engine x)])])))
   \<and> (run_query client
        (SchemaQuery (filter (\<lambda>c. c \<noteq> CHR 0x60) (get_competition_table cfg self)))
            (w, lg)
        = (res, (w1, lg1)) \<and>
      client (SampleQuery (get_competition_table cfg self)) w1 = (Inl x, w2) \<longrightarrow>
      test_competition_data cfg self client (w, lg)
        = (Inl (Engine x), (w2, lg1 @ [(ERROR, [T ''Error testing competition data: '',
                                               E (Engine x)])])))
   \<and> (client (ComparablesQuery (unit_competitor_pairs cfg self) unit_id) w = (Inl x, w')
       \<longrightarrow>
      get_unit_comparables cfg self client unit_id (w, lg)
        = (Inr [], (w', lg @ [(ERROR, [T ''Error fetching comparables for unit '', T unit_id,
                                      T '': '', E (Engine x)])])))
   \<and> (client (PropertiesQuery (unit_snapshot cfg self)) w = (Inl x, w') \<longrightarrow>
      get_properties cfg self client (w, lg)
        = (Inr [], (w', lg @ [(ERROR, [T ''Error fetching properties: '', E (Engine x)])])))
   \<and> (client (UnitTypesQuery (unit_snapshot cfg self)) w = (Inl x, w') \<longrightarrow>
      get_unit_types_summary cfg self client (w, lg)
        = (Inr Map.empty, (w', lg @ [(ERROR, [T ''Error fetching unit types summary: '',
                                             E (Engine x)])])))"
  by (intro conjI impI; (elim conjE)?; (rule primary_raises; assumption))

theorem primary_queries_reraise_witness:
  "get_units cfg_example (init cfg_example) failing_client 1 50 None None False
       (0, [] :: unit log_entry list)
     = (Inl (Engine ()), (1, [(ERROR, [T ''Error fetching units: '', E (Engine ())])]))"
  using primary_queries_reraise [where client = failing_client and cfg = cfg_example
      and self = "init cfg_example" and sf = None and pf = None and np = False and w = 0
      and x = "()" and w' = 1 and page = 1 and page_size = 50
      and lg = "[] :: unit log_entry list", THEN conjunct1]
  by (simp add: failing_client_def)

text \<open>The claim as it was stated fails for the three operations it names: with an engine
  that raises on every query, each of them returns its empty value.\<close>

theorem swallowed_failures_counterexample:
  "fst (get_unit_comparables cfg_example (init cfg_example) failing_client ''U1''
          (0, [] :: unit log_entry list)) = Inr []
   \<and> fst (get_properties cfg_example (init cfg_example) failing_client
          (0, [] :: unit log_entry list)) = Inr []
   \<and> fst (get_unit_types_summary cfg_example (init cfg_example) failing_client
          (0, [] :: unit log_entry list)) = Inr Map.empty"
  by (simp add: get_unit_comparables_def get_properties_def get_unit_types_summary_def prog_defs
      failing_client_def)

subsection \<open>Overview by unit type: the synthetic values\<close>


lemma market_query_value:
  "row ''unit_type'' = Some ut \<Longrightarrow> row ''avg_our_rent'' = Some r \<Longrightarrow> num_of r = Some a \<Longrightarrow>
   market_query cfg self row s
     = (Inr (MarketQuery (get_competition_table cfg self) (bed_filter ut) (a * (7 / 10)) (a * (13 / 10))), s)"
  by (simp add: market_query_def getitem_def py_mul_def return_p_def bind_p_def)




subsection \<open>Occupancy rate\<close>

































subsection \<open>Paginated listing\<close>

lemma length_matching_units:
  "length (matching_units table conds) = length (filter (where_clause conds) table)"
  by (simp add: matching_units_def length_sort_by)

lemma mset_matching_units:
  "mset (matching_units table conds)
     = image_mset (select_columns unit_columns) (filter_mset (where_clause conds) (mset table))"
  by (simp add: matching_units_def mset_sort_by)

lemma unit_id_selected: "select_columns unit_columns r ''unit_id'' = r ''unit_id''"
  by (simp add: select_columns_def unit_columns_def)

lemma distinct_matching_units:
  assumes "distinct (map (\<lambda>r. r ''unit_id'') table)"
  shows "distinct (map (\<lambda>r. r ''unit_id'') (matching_units table conds))"
proof -
  have "mset (map (\<lambda>r. r ''unit_id'') (matching_units table conds))
          = mset (map (\<lambda>r. r ''unit_id'') (filter (where_clause conds) table))"
    by (simp add: matching_units_def mset_sort_by unit_id_selected image_mset.compositionality comp_def)
  moreover have "distinct (map (\<lambda>r. r ''unit_id'') (filter (where_clause conds) table))"
    using assms by (rule distinct_map_filter)
  ultimately show ?thesis
    by (metis mset_eq_imp_distinct_iff)
qed

lemma concat_pages:
  "concat (map (\<lambda>p. take k (drop ((p - 1) * k) xs)) [1..<Suc n]) = take (n * k) xs"
proof (induction n)
  case 0
  then show ?case by simp
next
  case (Suc n)
  have "take (n * k) xs @ take k (drop (n * k) xs) = take (n * k + k) xs"
    by (simp add: take_add)
  with Suc show ?case by (simp add: add.commute)
qed

lemma get_units_answer:
  assumes "answers_listing client (unit_snapshot cfg self) table" and "1 \<le> page" and "0 \<le> page_size"
  shows "\<exists>w'. get_units cfg self client page page_size sf pf np (w, lg)
           = (Inr (data_rows table (where_conditions sf pf np) page_size ((page - 1) * page_size),
                   VInt (int (length (filter (where_clause (where_conditions sf pf np)) table)))),
              (w', lg @ [(INFO, [T ''Retrieved '',
                   N (int (length (data_rows table (where_conditions sf pf np) page_size
                                     ((page - 1) * page_size)))),
                   T '' units (page '', N page, T '', total: '',
                   V (VInt (int (length (filter (where_clause (where_conditions sf pf np)) table)))),
                   T '')''])]))"
proof -
  let ?conds = "where_conditions sf pf np"
  obtain r1 w1 where c: "client (CountQuery (unit_snapshot cfg self) ?conds) w = (r1, w1)"
    by (cases "client (CountQuery (unit_snapshot cfg self) ?conds) w")
  with assms(1) have r1: "r1 = Inr (count_rows table ?conds)"
    unfolding answers_listing_def by (metis fst_conv)
  obtain r2 w2 where d: "client (DataQuery (unit_snapshot cfg self) ?conds page_size
                           ((page - 1) * page_size)) w1 = (r2, w2)"
    by (cases "client (DataQuery (unit_snapshot cfg self) ?conds page_size ((page - 1) * page_size)) w1")
  from assms(2,3) have "0 \<le> (page - 1) * page_size" by simp
  with assms(1,3) d have r2: "r2 = Inr (data_rows table ?conds page_size ((page - 1) * page_size))"
    unfolding answers_listing_def by (metis fst_conv)
  show ?thesis
    using c d r1 r2
    by (simp add: get_units_def get_units_body_def coroutine_def count_query_def data_query_def
        next_iter_def getattr_def count_rows_def prog_defs)
qed

lemma fetch_answer:
  assumes "answers_listing client (unit_snapshot cfg self) table" and "0 \<le> page_size"
      and "\<forall>p \<in> set pages. 1 \<le> p"
  shows "\<exists>rs s'. map_p (\<lambda>page. get_units cfg self client page page_size sf pf np) pages (w, lg)
                   = (Inr rs, s')
           \<and> map fst rs = map (\<lambda>page. data_rows table (where_conditions sf pf np) page_size
                                         ((page - 1) * page_size)) pages
           \<and> (\<forall>r \<in> set rs. snd r
                 = VInt (int (length (filter (where_clause (where_conditions sf pf np)) table))))"
  using assms(3)
proof (induction pages arbitrary: w lg)
  case Nil
  then show ?case by (simp add: return_p_def)
next
  case (Cons p pages)
  then have "1 \<le> p" by simp
  from get_units_answer [OF assms(1) this assms(2), of sf pf np w lg]
  obtain w1 lg1 where
    g: "get_units cfg self client p page_size sf pf np (w, lg)
           = (Inr (data_rows table (where_conditions sf pf np) page_size ((p - 1) * page_size),
                   VInt (int (length (filter (where_clause (where_conditions sf pf np)) table)))),
              (w1, lg1))"
    by blast
  from Cons.IH [of w1 lg1] Cons.prems
  obtain rs s' where
    r: "map_p (\<lambda>page. get_units cfg self client page page_size sf pf np) pages (w1, lg1)
          = (Inr rs, s')"
       "map fst rs = map (\<lambda>page. data_rows table (where_conditions sf pf np) page_size
                                         ((page - 1) * page_size)) pages"
       "\<forall>r \<in> set rs. snd r
                 = VInt (int (length (filter (where_clause (where_conditions sf pf np)) table)))"
    by auto
  from g r show ?case
    by (simp add: bind_p_def return_p_def)
qed

lemma data_rows_pages:
  assumes "0 \<le> page_size"
  shows "concat (map (\<lambda>page. data_rows table conds page_size ((page - 1) * page_size))
                     (map int [1..<Suc n]))
           = take (n * nat page_size) (matching_units table conds)"
proof -
  have eq: "data_rows table conds page_size ((int p - 1) * page_size)
        = take (nat page_size) (drop ((p - 1) * nat page_size) (matching_units table conds))"
    if "p \<in> set [1..<Suc n]" for p
  proof -
    from that have "1 \<le> p" by auto
    then have "nat ((int p - 1) * page_size) = (p - 1) * nat page_size"
      using assms by (simp add: nat_mult_distrib nat_diff_distrib')
    then show ?thesis by (simp add: data_rows_def)
  qed
  have "map (\<lambda>page. data_rows table conds page_size ((page - 1) * page_size)) (map int [1..<Suc n])
      = map (\<lambda>p. take (nat page_size) (drop ((p - 1) * nat page_size) (matching_units table conds)))
            [1..<Suc n]"
    using eq by (simp only: map_map comp_def cong: map_cong)
  then show ?thesis
    by (simp only: concat_pages)
qed

text \<open>
  Claim C5, as amended. Let the engine answer the two queries of the listing over a
  fixed table. For every page number \<open>p \<ge> 1\<close>, page size \<open>s \<ge> 0\<close> and filter
  combination: the count query and the data query carry the same list of conditions, the
  offset of the data query is \<open>(p - 1) * s\<close>, and the call returns at most \<open>s\<close> units
  together with the number of rows of the table that pass the conditions. For a page
  size \<open>s \<ge> 1\<close> and a number \<open>n\<close> of pages with \<open>n * s\<close> at least that number, the units of
  pages \<open>1, ..., n\<close> in order are exactly the matching rows in the query's order: their
  number is the total count every page reports, each matching row of the table occurs as
  often as in the table, and no unit id occurs twice when the table has none twice.
\<close>

theorem paginated_listing:
  assumes "answers_listing client (unit_snapshot cfg self) table"
      and "1 \<le> page" and "0 \<le> page_size"
  shows "count_query cfg self sf pf np
           = CountQuery (unit_snapshot cfg self) (where_conditions sf pf np)
       \<and> data_query cfg self page page_size sf pf np
           = DataQuery (unit_snapshot cfg self) (where_conditions sf pf np) page_size
               ((page - 1) * page_size)
       \<and> (\<exists>us s'. get_units cfg self client page page_size sf pf np (w, lg)
                     = (Inr (us, VInt (int (length (filter (where_clause (where_conditions sf pf np))
                                                     table)))), s')
                   \<and> length us \<le> nat page_size)
       \<and> (1 \<le> page_size
            \<and> length (filter (where_clause (where_conditions sf pf np)) table) \<le> n * nat page_size \<longrightarrow>
          (\<exists>rs s'. fetch_pages cfg self client n page_size sf pf np (w, lg) = (Inr rs, s')
             \<and> concat (map fst rs) = matching_units table (where_conditions sf pf np)
             \<and> length (concat (map fst rs))
                 = length (filter (where_clause (where_conditions sf pf np)) table)
             \<and> (\<forall>r \<in> set rs. snd r
                   = VInt (int (length (filter (where_clause (where_conditions sf pf np)) table))))
             \<and> mset (concat (map fst rs))
                 = image_mset (select_columns unit_columns)
                     (filter_mset (where_clause (where_conditions sf pf np)) (mset table))
             \<and> (distinct (map (\<lambda>r. r ''unit_id'') table) \<longrightarrow>
                  distinct (map (\<lambda>r. r ''unit_id'') (concat (map fst rs))))))"
proof (intro conjI impI)
  show "count_query cfg self sf pf np
           = CountQuery (unit_snapshot cfg self) (where_conditions sf pf np)"
    by (simp add: count_query_def)
  show "data_query cfg self page page_size sf pf np
           = DataQuery (unit_snapshot cfg self) (where_conditions sf pf np) page_size
               ((page - 1) * page_size)"
    by (simp add: data_query_def)
  show "\<exists>us s'. get_units cfg self client page page_size sf pf np (w, lg)
                     = (Inr (us, VInt (int (length (filter (where_clause (where_conditions sf pf np))
                                                     table)))), s')
                   \<and> length us \<le> nat page_size"
    using get_units_answer [OF assms, of sf pf np w lg] by (auto simp add: data_rows_def)
next
  let ?conds = "where_conditions sf pf np"
  assume h: "1 \<le> page_size \<and> length (filter (where_clause ?conds) table) \<le> n * nat page_size"
  have "\<forall>p \<in> set (map int [1..<Suc n]). 1 \<le> p" by auto
  from fetch_answer [OF assms(1,3) this, of sf pf np w lg]
  obtain rs s' where
    r: "fetch_pages cfg self client n page_size sf pf np (w, lg) = (Inr rs, s')"
       "map fst rs = map (\<lambda>page. data_rows table ?conds page_size ((page - 1) * page_size))
                         (map int [1..<Suc n])"
       "\<forall>r \<in> set rs. snd r = VInt (int (length (filter (where_clause ?conds) table)))"
    unfolding fetch_pages_def by blast
  from r(2) have "concat (map fst rs) = take (n * nat page_size) (matching_units table ?conds)"
    by (simp only: data_rows_pages [OF assms(3)])
  with h have all: "concat (map fst rs) = matching_units table ?conds"
    by (simp add: length_matching_units)
  show "\<exists>rs s'. fetch_pages cfg self client n page_size sf pf np (w, lg) = (Inr rs, s')
             \<and> concat (map fst rs) = matching_units table ?conds
             \<and> length (concat (map fst rs)) = length (filter (where_clause ?conds) table)
             \<and> (\<forall>r \<in> set rs. snd r = VInt (int (length (filter (where_clause ?conds) table))))
             \<and> mset (concat (map fst rs))
                 = image_mset (select_columns unit_columns)
                     (filter_mset (where_clause ?conds) (mset table))
             \<and> (distinct (map (\<lambda>r. r ''unit_id'') table) \<longrightarrow>
                  distinct (map (\<lambda>r. r ''unit_id'') (concat (map fst rs))))"
    using r(1,3) all
    by (intro exI [of _ rs] exI [of _ s'])
       (simp add: length_matching_units mset_matching_units distinct_matching_units)
qed

text \<open>The example engine over the three example units: page 2 of size 2, and two pages
  of size 2.\<close>

lemma example_listing:
  "answers_listing (warehouse units_example comps_example)
     (unit_snapshot cfg_example (init cfg_example)) units_example"
  by (simp add: answers_listing_def warehouse_def)

lemma example_total:
  "length (filter (where_clause (where_conditions None None False)) units_example) = 3"
  by (simp add: where_conditions_def truthy_opt_def where_clause_def units_example_def unit_row_def
      sql_defs)

lemma example_ids: "distinct (map (\<lambda>r. r ''unit_id'') units_example)"
  by (simp add: units_example_def unit_row_def)

theorem paginated_listing_witness:
  "(\<exists>us s'. get_units cfg_example (init cfg_example) (warehouse units_example comps_example)
               2 2 None None False (0, [] :: unit log_entry list) = (Inr (us, VInt 3), s')
            \<and> length us \<le> 2)
   \<and> (\<exists>rs s'. fetch_pages cfg_example (init cfg_example) (warehouse units_example comps_example)
               2 2 None None False (0, [] :: unit log_entry list) = (Inr rs, s')
            \<and> length (concat (map fst rs)) = 3
            \<and> distinct (map (\<lambda>r. r ''unit_id'') (concat (map fst rs))))"
  using paginated_listing [OF example_listing, of 2 2 None None False 0 "[] :: unit log_entry list" 2]
    example_total example_ids
  by auto

text \<open>
  The claim as it was stated fails for the page size 0: every page is empty, while the
  total count is 3, so no number of pages yields the three units.
\<close>

theorem page_size_zero_counterexample:
  "fst (fetch_pages cfg_example (init cfg_example) (warehouse units_example comps_example)
          3 0 None None False (0, [] :: unit log_entry list))
     = Inr [([], VInt 3), ([], VInt 3), ([], VInt 3)]"
proof -
  have pages: "map int [1..<Suc 3] = [1, 2, 3]"
    by (simp add: upt_rec)
  have page: "get_units cfg_example (init cfg_example) (warehouse units_example comps_example)
                p 0 None None False (w, lg)
      = (Inr ([], VInt 3),
         (Suc (Suc w), lg @ [(INFO, [T ''Retrieved '', N 0, T '' units (page '', N p,
                                     T '', total: '', V (VInt 3), T '')''])]))" for p w lg
    using example_total
    by (simp add: get_units_def get_units_body_def coroutine_def count_query_def data_query_def
        next_iter_def getattr_def prog_defs warehouse_def count_rows_def data_rows_def)
  show ?thesis
    unfolding fetch_pages_def pages
    by (simp add: page bind_p_def return_p_def)
qed

subsection \<open>The populations of the two enrichment queries\<close>

lemma comp_query_value:
  "row ''bed'' = Some bed \<Longrightarrow> bed_text bed s = (Inr label, s) \<Longrightarrow>
   comp_query cfg self row s = (Inr (CompQuery (get_competition_table cfg self) label), s)"
  by (simp add: comp_query_def getitem_def bind_p_def return_p_def)

lemma comp_query_ignores_rent:
  "comp_query cfg self (row(''avg_our_rent'' := v)) s = comp_query cfg self row s"
  by (simp add: comp_query_def getitem_def)

text \<open>
  Claim C10. The enrichment query of the rent comparison is built from the table name
  and the bedroom label alone: changing the row's average rent does not change it, and it
  aggregates over the listings with that label and a positive price and area. The
  enrichment query of the overview carries the band from 0.7 to 1.3 times the row's
  average rent, and aggregates over those listings of the same selection whose price lies
  in the band. The two populations differ: among the example listings with one bedroom,
  one is in the band around 1200 and two pass the plain selection.
\<close>

theorem enrichment_populations:
  "(row ''unit_type'' = Some ut \<and> row ''avg_our_rent'' = Some r \<and> num_of r = Some a \<longrightarrow>
      market_query cfg self row s
        = (Inr (MarketQuery (get_competition_table cfg self) (bed_filter ut)
                  (a * (7 / 10)) (a * (13 / 10))), s)
      \<and> population comps (MarketQuery (get_competition_table cfg self) (bed_filter ut)
                            (a * (7 / 10)) (a * (13 / 10)))
          = filter (\<lambda>c. sql_between (num_col c ''Base_Price'') (Some (a * (7 / 10))) (Some (a * (13 / 10))))
              (population comps (CompQuery (get_competition_table cfg self) (bed_filter ut))))
   \<and> (row' ''bed'' = Some bed \<and> bed_text bed s = (Inr label, s) \<longrightarrow>
      comp_query cfg self row' s = (Inr (CompQuery (get_competition_table cfg self) label), s)
      \<and> comp_query cfg self (row'(''avg_our_rent'' := v)) s = comp_query cfg self row' s
      \<and> population comps (CompQuery (get_competition_table cfg self) label)
          = filter (\<lambda>c. str_col c ''Bed'' = Some label
                        \<and> sql_lt (Some 0) (num_col c ''Base_Price'')
                        \<and> sql_lt (Some 0) (num_col c ''Sq_Ft'')) comps)
   \<and> population comps_example (MarketQuery t ''1 Bed'' (1200 * (7 / 10)) (1200 * (13 / 10)))
        \<noteq> population comps_example (CompQuery t ''1 Bed'')"
proof -
  have "length (population comps_example (MarketQuery t ''1 Bed'' (1200 * (7 / 10)) (1200 * (13 / 10)))) = 1"
    by (simp add: comps_example_def listing_def market_where_def str_col_def num_col_def sql_lt_def
        sql_le_def sql_between_def)
  moreover have "length (population comps_example (CompQuery t ''1 Bed'')) = 2"
    by (simp add: comps_example_def listing_def comp_where_def str_col_def num_col_def sql_lt_def)
  ultimately have differ:
    "population comps_example (MarketQuery t ''1 Bed'' (1200 * (7 / 10)) (1200 * (13 / 10)))
        \<noteq> population comps_example (CompQuery t ''1 Bed'')"
    by (metis numeral_eq_one_iff semiring_norm(85) of_nat_eq_iff of_nat_1 of_nat_numeral)
  have band: "population comps (MarketQuery n l lo hi)
      = filter (\<lambda>c. sql_between (num_col c ''Base_Price'') (Some lo) (Some hi))
          (population comps (CompQuery n l))" for n l lo hi
    by (auto simp add: market_where_def comp_where_def intro: filter_cong)
  have plain: "population comps (CompQuery n l)
      = filter (\<lambda>c. str_col c ''Bed'' = Some l
                    \<and> sql_lt (Some 0) (num_col c ''Base_Price'')
                    \<and> sql_lt (Some 0) (num_col c ''Sq_Ft'')) comps" for n l
    by (auto simp add: comp_where_def intro: filter_cong)
  show ?thesis
    by (intro conjI impI; (elim conjE)?)
       (rule market_query_value band comp_query_value comp_query_ignores_rent plain differ;
        assumption)+
qed

theorem enrichment_populations_witness:
  "market_query cfg_example (init cfg_example) overview_row_example (0 :: nat, [] :: unit log_entry list)
     = (Inr (MarketQuery ''proj.rentroll.Competition'' ''1 Bed'' 840 1560), (0, []))
   \<and> comp_query cfg_example (init cfg_example) comparison_row_example
       (0 :: nat, [] :: unit log_entry list)
     = (Inr (CompQuery ''proj.rentroll.Competition'' ''1 Bed''), (0, []))
   \<and> population comps_example (MarketQuery ''proj.rentroll.Competition'' ''1 Bed'' 840 1560)
       \<noteq> population comps_example (CompQuery ''proj.rentroll.Competition'' ''1 Bed'')"
proof -
  have bed: "bed_text (VInt 1) (0 :: nat, [] :: unit log_entry list) = (Inr ''1 Bed'', (0, []))"
    by (simp add: bed_text_def py_eq_num_def return_p_def)
  have table: "get_competition_table cfg_example (init cfg_example) = ''proj.rentroll.Competition''"
    by (simp add: get_competition_table_def init_def truthy_opt_def cfg_example_def)
  have rows: "overview_row_example ''unit_type'' = Some (VStr ''1BR'')"
    "overview_row_example ''avg_our_rent'' = Some (VFloat 1200)"
    "comparison_row_example ''bed'' = Some (VInt 1)"
    by (simp_all add: overview_row_example_def comparison_row_example_def)
  note populations = enrichment_populations [where row = overview_row_example
      and ut = "VStr ''1BR''" and r = "VFloat 1200" and a = 1200 and cfg = cfg_example
      and self = "init cfg_example" and s = "(0 :: nat, [] :: unit log_entry list)"
      and row' = comparison_row_example and bed = "VInt 1" and label = "''1 Bed''"
      and comps = comps_example and v = None and t = "''proj.rentroll.Competition''"]
  from populations [THEN conjunct1] rows table
  have overview: "market_query cfg_example (init cfg_example) overview_row_example
       (0 :: nat, [] :: unit log_entry list)
     = (Inr (MarketQuery ''proj.rentroll.Competition'' ''1 Bed'' 840 1560), (0, []))"
    by (simp add: bed_filter_def)
  from populations [THEN conjunct2, THEN conjunct1] rows table bed
  have comparison: "comp_query cfg_example (init cfg_example) comparison_row_example
       (0 :: nat, [] :: unit log_entry list)
     = (Inr (CompQuery ''proj.rentroll.Competition'' ''1 Bed''), (0, []))"
    by simp
  from populations [THEN conjunct2, THEN conjunct2]
  have "population comps_example (MarketQuery ''proj.rentroll.Competition'' ''1 Bed'' 840 1560)
       \<noteq> population comps_example (CompQuery ''proj.rentroll.Competition'' ''1 Bed'')"
    by simp
  with overview comparison show ?thesis
    by (intro conjI)
qed

subsection \<open>Potential increase and annual opportunity\<close>

lemma sql_round_nonneg: "0 \<le> x \<Longrightarrow> 0 \<le> sql_round x n"
  by (simp add: sql_round_def sgn_if)

lemma num_col_float_cell: "num_col (m(k \<mapsto> float_cell x)) k = x"
  by (cases x) (simp_all add: num_col_def float_cell_def)

lemma analysis_row_columns:
  assumes "u = analysis_row ups comps p"
  shows "\<exists>avg. num_col u ''avg_comp_rent'' = avg
           \<and> u ''potential_rent_increase''
                = Some (potential_rent_increase avg (num_col u ''advertised_rent''))
           \<and> u ''annual_opportunity''
                = Some (annual_opportunity avg (num_col u ''advertised_rent''))"
proof -
  let ?avg = "sql_avg (map (\<lambda>c. num_col c ''Base_Price'') (unit_comps ups comps p))"
  have "num_col u ''avg_comp_rent'' = ?avg"
    using assms by (cases ?avg) (simp_all add: analysis_row_def Let_def num_col_def float_cell_def)
  moreover have "num_col u ''advertised_rent'' = num_col p ''advertised_rent''"
    using assms by (simp add: analysis_row_def Let_def num_col_def map_add_def)
  moreover have "u ''potential_rent_increase''
       = Some (potential_rent_increase ?avg (num_col p ''advertised_rent''))"
    using assms by (simp add: analysis_row_def Let_def)
  moreover have "u ''annual_opportunity''
       = Some (annual_opportunity ?avg (num_col p ''advertised_rent''))"
    using assms by (simp add: analysis_row_def Let_def)
  ultimately show ?thesis by simp
qed

lemma count_above_returns:
  "\<forall>u \<in> set us. \<exists>x. u ''potential_rent_increase'' = Some (VFloat x) \<Longrightarrow>
   \<exists>n. count_above k us s = (Inr n, s)"
proof (induction us)
  case Nil
  then show ?case by (simp add: return_p_def)
next
  case (Cons u us)
  then obtain n where "count_above k us s = (Inr n, s)" by auto
  moreover from Cons.prems obtain x where "u ''potential_rent_increase'' = Some (VFloat x)" by auto
  ultimately show ?case
    by (simp add: get_or_zero_def py_gt_def bind_p_def return_p_def)
qed

lemma total_increase_returns:
  assumes "\<forall>u \<in> set us. \<exists>x. u ''potential_rent_increase'' = Some (VFloat x)"
      and "num_of acc \<noteq> None"
  shows "\<exists>t. fold_p (\<lambda>u acc. py_add acc (or_zero (get_or_zero u ''potential_rent_increase''))) us acc s
               = (Inr t, s) \<and> num_of t \<noteq> None"
  using assms
proof (induction us arbitrary: acc)
  case Nil
  then show ?case by (simp add: return_p_def)
next
  case (Cons u us)
  from Cons.prems obtain x where x: "u ''potential_rent_increase'' = Some (VFloat x)" by auto
  from Cons.prems(2) obtain a where a: "num_of acc = Some a" by auto
  have "\<exists>acc'. py_add acc (or_zero (get_or_zero u ''potential_rent_increase'')) s = (Inr acc', s)
               \<and> num_of acc' \<noteq> None"
    using x a
    by (cases acc)
       (auto simp add: py_add_def or_zero_def get_or_zero_def return_p_def split: option.splits)
  then obtain acc' where
    "py_add acc (or_zero (get_or_zero u ''potential_rent_increase'')) s = (Inr acc', s)"
    "num_of acc' \<noteq> None" by blast
  with Cons.IH [of acc'] Cons.prems(1) show ?case
    by (simp add: bind_p_def)
qed

lemma unit_analysis_returns:
  assumes "client (UnitsQuery (unit_snapshot cfg self) (get_competition_table cfg self) name) w
             = (Inr us, w')"
      and "\<forall>u \<in> set us. \<exists>x. u ''potential_rent_increase'' = Some (VFloat x)"
  shows "\<exists>res s'. get_property_unit_analysis cfg self client name (w, lg) = (Inr res, s')
           \<and> units res = us"
proof -
  let ?s = "(w', lg @ [(INFO, [T ''Units query returned '', N (int (length us)),
                               T '' rows for property: '', T name])])"
  from count_above_returns [OF assms(2)] obtain n50 n100 where
    c: "count_above 50 us ?s = (Inr n50, ?s)" "count_above 100 us ?s = (Inr n100, ?s)"
    by blast
  from total_increase_returns [OF assms(2), of "VInt 0" ?s] obtain t where
    t: "total_increase us ?s = (Inr t, ?s)" "num_of t \<noteq> None"
    by (auto simp add: total_increase_def)
  then obtain x where x: "num_of t = Some x" by auto
  have m: "\<exists>v. py_mul_int t 12 ?s = (Inr v, ?s)"
    using x by (cases t) (simp_all add: py_mul_int_def return_p_def)
  have d: "us \<noteq> [] \<Longrightarrow> \<exists>y. py_truediv t (VInt (int (length us))) ?s = (Inr y, ?s)"
    using x by (simp add: py_truediv_def return_p_def)
  from m obtain v where v: "py_mul_int t 12 ?s = (Inr v, ?s)" by blast
  show ?thesis
  proof (cases "us = []")
    case True
    with assms(1) c t v show ?thesis
      by (simp add: get_property_unit_analysis_def get_property_unit_analysis_body_def prog_defs
          Let_def)
  next
    case False
    with d obtain y where "py_truediv t (VInt (int (length us))) ?s = (Inr y, ?s)" by blast
    with False assms(1) c t v show ?thesis
      by (simp add: get_property_unit_analysis_def get_property_unit_analysis_body_def prog_defs
          Let_def)
  qed
qed

lemma opportunity_row:
  assumes "u \<in> set (units_rows table comps name)"
  shows "(num_col u ''avg_comp_rent'' = Some a \<and> num_col u ''advertised_rent'' = Some r \<longrightarrow>
            (a \<le> r \<longrightarrow> u ''potential_rent_increase'' = Some (VFloat 0)
                        \<and> u ''annual_opportunity'' = Some (VFloat 0))
          \<and> (r < a \<longrightarrow> u ''potential_rent_increase'' = Some (VFloat (sql_round (a - r) 0))
                        \<and> u ''annual_opportunity'' = Some (VFloat (sql_round ((a - r) * 12) 0))))
       \<and> (\<exists>x y. u ''potential_rent_increase'' = Some (VFloat x) \<and> 0 \<le> x
                \<and> u ''annual_opportunity'' = Some (VFloat y) \<and> 0 \<le> y)"
proof -
  from assms obtain p where "u = analysis_row (property_units table name) comps p"
    by (auto simp add: units_rows_def set_sort_by)
  from analysis_row_columns [OF this]
  have pot: "u ''potential_rent_increase''
               = Some (potential_rent_increase (num_col u ''avg_comp_rent'') (num_col u ''advertised_rent''))"
    and ann: "u ''annual_opportunity''
               = Some (annual_opportunity (num_col u ''avg_comp_rent'') (num_col u ''advertised_rent''))"
    by simp_all
  have "\<exists>x. potential_rent_increase v w = VFloat x \<and> 0 \<le> x" for v w
    by (auto simp add: potential_rent_increase_def sql_lt_def sql_round_nonneg split: option.splits)
  moreover have "\<exists>y. annual_opportunity v w = VFloat y \<and> 0 \<le> y" for v w
    by (auto simp add: annual_opportunity_def sql_lt_def sql_round_nonneg split: option.splits)
  ultimately have "\<exists>x y. u ''potential_rent_increase'' = Some (VFloat x) \<and> 0 \<le> x
                \<and> u ''annual_opportunity'' = Some (VFloat y) \<and> 0 \<le> y"
    using pot ann by metis
  then show ?thesis
    using pot ann
    by (auto simp add: potential_rent_increase_def annual_opportunity_def sql_lt_def)
qed

text \<open>
  Claim C7, as amended. In every row of the unit-level query whose average comparable
  rent and advertised rent both exist: when the average is at most the rent,
  \<^verbatim>\<open>potential_rent_increase\<close> and \<^verbatim>\<open>annual_opportunity\<close> are zero; when the average
  exceeds the rent, \<^verbatim>\<open>potential_rent_increase\<close> is the difference rounded to 0 decimals
  and \<^verbatim>\<open>annual_opportunity\<close> is twelve times the difference, rounded to 0 decimals. In
  every row the two columns are numbers that are not negative, never NULL. When the
  engine answers with these rows, the operation returns them as its units.
\<close>

theorem opportunity_columns:
  "(u \<in> set (units_rows table comps name) \<longrightarrow>
      (num_col u ''avg_comp_rent'' = Some a \<and> num_col u ''advertised_rent'' = Some r \<longrightarrow>
         (a \<le> r \<longrightarrow> u ''potential_rent_increase'' = Some (VFloat 0)
                     \<and> u ''annual_opportunity'' = Some (VFloat 0))
       \<and> (r < a \<longrightarrow> u ''potential_rent_increase'' = Some (VFloat (sql_round (a - r) 0))
                     \<and> u ''annual_opportunity'' = Some (VFloat (sql_round ((a - r) * 12) 0))))
      \<and> (\<exists>x y. u ''potential_rent_increase'' = Some (VFloat x) \<and> 0 \<le> x
               \<and> u ''annual_opportunity'' = Some (VFloat y) \<and> 0 \<le> y))
   \<and> (client (UnitsQuery (unit_snapshot cfg self) (get_competition_table cfg self) name) w
         = (Inr (units_rows table comps name), w') \<longrightarrow>
       (\<exists>res s'. get_property_unit_analysis cfg self client name (w, lg) = (Inr res, s')
          \<and> units res = units_rows table comps name))"
proof -
  have row: "u \<in> set (units_rows table comps name) \<longrightarrow>
      (num_col u ''avg_comp_rent'' = Some a \<and> num_col u ''advertised_rent'' = Some r \<longrightarrow>
         (a \<le> r \<longrightarrow> u ''potential_rent_increase'' = Some (VFloat 0)
                     \<and> u ''annual_opportunity'' = Some (VFloat 0))
       \<and> (r < a \<longrightarrow> u ''potential_rent_increase'' = Some (VFloat (sql_round (a - r) 0))
                     \<and> u ''annual_opportunity'' = Some (VFloat (sql_round ((a - r) * 12) 0))))
      \<and> (\<exists>x y. u ''potential_rent_increase'' = Some (VFloat x) \<and> 0 \<le> x
               \<and> u ''annual_opportunity'' = Some (VFloat y) \<and> 0 \<le> y)"
    by (rule impI) (rule opportunity_row)
  have returned: "client (UnitsQuery (unit_snapshot cfg self) (get_competition_table cfg self) name) w
         = (Inr (units_rows table comps name), w') \<longrightarrow>
       (\<exists>res s'. get_property_unit_analysis cfg self client name (w, lg) = (Inr res, s')
          \<and> units res = units_rows table comps name)"
  proof
    assume q: "client (UnitsQuery (unit_snapshot cfg self) (get_competition_table cfg self) name) w
         = (Inr (units_rows table comps name), w')"
    have "\<forall>v \<in> set (units_rows table comps name). \<exists>x. v ''potential_rent_increase'' = Some (VFloat x)"
      using opportunity_row [of _ table comps name] by blast
    from unit_analysis_returns [where client = client and cfg = cfg and self = self
        and name = name and w = w and w' = w' and lg = lg, OF q this]
    show "\<exists>res s'. get_property_unit_analysis cfg self client name (w, lg) = (Inr res, s')
          \<and> units res = units_rows table comps name" .
  qed
  show ?thesis
    by (rule conjI [OF row returned])
qed

text \<open>The example: unit A2 at 1200 has one listing in its band, at 1260.\<close>

lemma maple_ridge_units:
  "property_units units_example ''Maple Ridge''
     = [select_columns analysis_columns (unit_row ''A1'' ''Maple Ridge'' 1 600 ''OCCUPIED'' 1000 False ''LOW''),
        select_columns analysis_columns (unit_row ''A2'' ''Maple Ridge'' 1 600 ''VACANT'' 1200 True ''HIGH'')]"
  by (simp add: property_units_def units_example_def unit_row_def str_col_def)

lemma selected:
  "select_columns analysis_columns (unit_row uid prop beds area stat rent pricing urgency) ''unit_id'' = Some (VStr uid)"
  "select_columns analysis_columns (unit_row uid prop beds area stat rent pricing urgency) ''bed'' = Some (VInt beds)"
  "select_columns analysis_columns (unit_row uid prop beds area stat rent pricing urgency) ''advertised_rent'' = Some (VFloat rent)"
  "select_columns analysis_columns (unit_row uid prop beds area stat rent pricing urgency) ''needs_pricing'' = Some (VBool pricing)"
  by (simp_all add: select_columns_def analysis_columns_def unit_row_def)

lemma a2_comps:
  "unit_comps (property_units units_example ''Maple Ridge'') comps_example
     (select_columns analysis_columns (unit_row ''A2'' ''Maple Ridge'' 1 600 ''VACANT'' 1200 True ''HIGH''))
   = [listing ''Oak Court'' ''1 Bed'' 600 1260 ''Available Now'']"
  by (simp add: maple_ridge_units unit_comps_def unit_match_def bed_label_def comps_example_def
      sql_defs selected listing_def)


lemma a2_row:
  "analysis_row (property_units units_example ''Maple Ridge'') comps_example
     (select_columns analysis_columns (unit_row ''A2'' ''Maple Ridge'' 1 600 ''VACANT'' 1200 True ''HIGH''))
   \<in> set (units_rows units_example comps_example ''Maple Ridge'')"
  by (simp add: units_rows_def set_sort_by maple_ridge_units)

lemma a2_numbers:
  "num_col (analysis_row (property_units units_example ''Maple Ridge'') comps_example
     (select_columns analysis_columns (unit_row ''A2'' ''Maple Ridge'' 1 600 ''VACANT'' 1200 True ''HIGH'')))
     ''avg_comp_rent'' = Some 1260"
  "num_col (analysis_row (property_units units_example ''Maple Ridge'') comps_example
     (select_columns analysis_columns (unit_row ''A2'' ''Maple Ridge'' 1 600 ''VACANT'' 1200 True ''HIGH'')))
     ''advertised_rent'' = Some 1200"
  by (simp_all add: analysis_row_def a2_comps Let_def listing_def num_col_def sql_avg_def non_null_def
      float_cell_def map_add_def selected)

theorem opportunity_columns_witness:
  "analysis_row (property_units units_example ''Maple Ridge'') comps_example
     (select_columns analysis_columns (unit_row ''A2'' ''Maple Ridge'' 1 600 ''VACANT'' 1200 True ''HIGH''))
     ''potential_rent_increase'' = Some (VFloat 60)
   \<and> analysis_row (property_units units_example ''Maple Ridge'') comps_example
     (select_columns analysis_columns (unit_row ''A2'' ''Maple Ridge'' 1 600 ''VACANT'' 1200 True ''HIGH''))
     ''annual_opportunity'' = Some (VFloat 720)
   \<and> (\<exists>res s'. get_property_unit_analysis cfg_example (init cfg_example)
                  (warehouse units_example comps_example) ''Maple Ridge''
                  (0, [] :: unit log_entry list) = (Inr res, s')
          \<and> units res = units_rows units_example comps_example ''Maple Ridge'')"
proof -
  note columns = opportunity_columns [where u = "analysis_row (property_units units_example ''Maple Ridge'')
        comps_example (select_columns analysis_columns
          (unit_row ''A2'' ''Maple Ridge'' 1 600 ''VACANT'' 1200 True ''HIGH''))"
      and table = units_example and comps = comps_example and name = "''Maple Ridge''"
      and a = 1260 and r = 1200 and client = "warehouse units_example comps_example"
      and cfg = cfg_example and self = "init cfg_example" and w = 0 and w' = 1
      and lg = "[] :: unit log_entry list"]
  from columns [THEN conjunct1] a2_row a2_numbers
  have "analysis_row (property_units units_example ''Maple Ridge'') comps_example
     (select_columns analysis_columns (unit_row ''A2'' ''Maple Ridge'' 1 600 ''VACANT'' 1200 True ''HIGH''))
     ''potential_rent_increase'' = Some (VFloat 60)
   \<and> analysis_row (property_units units_example ''Maple Ridge'') comps_example
     (select_columns analysis_columns (unit_row ''A2'' ''Maple Ridge'' 1 600 ''VACANT'' 1200 True ''HIGH''))
     ''annual_opportunity'' = Some (VFloat 720)"
    by (simp add: sql_round_def)
  moreover from columns [THEN conjunct2]
  have "\<exists>res s'. get_property_unit_analysis cfg_example (init cfg_example)
                  (warehouse units_example comps_example) ''Maple Ridge''
                  (0, [] :: unit log_entry list) = (Inr res, s')
          \<and> units res = units_rows units_example comps_example ''Maple Ridge''"
    by (simp add: warehouse_def)
  ultimately show ?thesis by blast
qed

text \<open>
  The claim as it was stated fails on the annual figure: with an average comparable rent
  of 1000.10 against a rent of 1000, \<^verbatim>\<open>annual_opportunity\<close> is 1, which is neither the
  difference times 12 (1.2) nor the rounded difference times 12 (0).
\<close>

theorem annual_opportunity_counterexample:
  "map (\<lambda>u. (num_col u ''avg_comp_rent'', num_col u ''advertised_rent'',
              u ''potential_rent_increase'', u ''annual_opportunity''))
       (units_rows [unit_row ''A1'' ''Maple Ridge'' 1 600 ''OCCUPIED'' 1000 False ''LOW'']
          close_comps_example ''Maple Ridge'')
     = [(Some (10001 / 10), Some 1000, Some (VFloat 0), Some (VFloat 1))]
   \<and> (1 :: real) \<noteq> (10001 / 10 - 1000) * 12
   \<and> (1 :: real) \<noteq> sql_round (10001 / 10 - 1000) 0 * 12"
  by (simp add: units_rows_def property_units_def select_columns_def analysis_columns_def
      analysis_row_def unit_comps_def unit_match_def bed_label_def cell_def str_col_def num_col_def
      sql_lt_def sql_le_def sql_between_def sql_times_def sql_avg_def sql_min_def sql_max_def
      non_null_def float_cell_def potential_rent_increase_def annual_opportunity_def sql_round_def
      unit_row_def close_comps_example_def listing_def Let_def map_add_def)
     (rule exI [of _ "10001 / 10"], simp)

subsection \<open>Top competitors\<close>













end
